theory Spec2Isabelle
  imports Complex_Main
begin

section \<open>Tables, cells and errors\<close>

text \<open>
  The analytics engine of \<^verbatim>\<open>utils/logic.py\<close> works on pandas data frames. A frame is
  modelled as its ordered column names together with its rows; a row carries its index
  label and the value stored under every column name. A cell holds a number, a text or
  the missing value (pandas' NaN). Numbers are real numbers: the rounding of binary
  floating point is not part of the model. Cells are dynamically typed, as in a column
  of Python objects.

  An exception of the source is a value \<open>Inl e\<close>: reading a column that the frame does
  not have is a \<open>KeyError\<close>, ordering a text against a number is a \<open>TypeError\<close>,
  calling a string method on a number is an \<open>AttributeError\<close>, taking the first
  element of an empty index is an \<open>IndexError\<close>.
\<close>

datatype cell = Num real | Str string | NaN

datatype error = KeyError string | TypeError | AttributeError | IndexError

type_synonym row = "nat \<times> (string \<Rightarrow> cell)"

record frame =
  columns :: "string list"
  rws :: "row list"

definition err_bind :: "error + 'a \<Rightarrow> ('a \<Rightarrow> error + 'b) \<Rightarrow> error + 'b" where
  "err_bind m k = (case m of Inl e \<Rightarrow> Inl e | Inr x \<Rightarrow> k x)"

text \<open>\<^verbatim>\<open>df[c]\<close>: the column as a series, in row order.\<close>

definition getcol :: "frame \<Rightarrow> string \<Rightarrow> error + cell list" where
  "getcol df c =
     (if c \<in> set (columns df) then Inr (map (\<lambda>r. snd r c) (rws df)) else Inl (KeyError c))"

text \<open>
  \<^verbatim>\<open>df[c] = series\<close>: an existing column is overwritten in place, a new one is appended
  as the last column. The series always comes from the same frame, so it has one value
  per row.
\<close>

definition setcol :: "frame \<Rightarrow> string \<Rightarrow> cell list \<Rightarrow> frame" where
  "setcol df c vs =
     \<lparr>columns = (if c \<in> set (columns df) then columns df else columns df @ [c]),
      rws = map (\<lambda>(r, v). (fst r, (snd r)(c := v))) (zip (rws df) vs)\<rparr>"

text \<open>\<^verbatim>\<open>series.map(table)\<close> with a dictionary keyed by text, and \<^verbatim>\<open>series.fillna(x)\<close>.\<close>

definition series_map :: "(string \<rightharpoonup> real) \<Rightarrow> cell list \<Rightarrow> cell list" where
  "series_map m =
     map (\<lambda>v. case v of Str s \<Rightarrow> (case m s of Some x \<Rightarrow> Num x | None \<Rightarrow> NaN) | _ \<Rightarrow> NaN)"

definition fillna :: "real \<Rightarrow> cell list \<Rightarrow> cell list" where
  "fillna x = map (\<lambda>v. case v of NaN \<Rightarrow> Num x | _ \<Rightarrow> v)"

section \<open>Derived scores\<close>

definition MEDICAL_SCORE :: "string \<rightharpoonup> real" where
  "MEDICAL_SCORE =
     map_of [(''A1'', 100), (''A2'', 95), (''B1'', 88), (''B2'', 82), (''C1'', 75), (''C2'', 68)]"

definition READINESS_SCORE :: "string \<rightharpoonup> real" where
  "READINESS_SCORE = map_of [(''High'', 3), (''Medium'', 2), (''Low'', 1)]"

definition LEADERSHIP_MAP :: "string \<rightharpoonup> real" where
  "LEADERSHIP_MAP =
     map_of [(''High'', 3), (''Medium'', 2), (''Low'', 1), (''Yes'', 3), (''No'', 1)]"

definition ATTRITION_RISK_MAP :: "string \<rightharpoonup> real" where
  "ATTRITION_RISK_MAP = map_of [(''High'', 3), (''Medium'', 2), (''Low'', 1)]"

text \<open>
  \<^verbatim>\<open>add_derived_columns\<close> works on \<^verbatim>\<open>df.copy()\<close>; in this value model the copy is the
  frame itself. The store model further down makes the copy explicit.
\<close>

definition add_derived_columns :: "frame \<Rightarrow> error + frame" where
  "add_derived_columns df0 =
     err_bind (getcol df0 ''Medical_Category'') (\<lambda>mc.
     let df1 = setcol df0 ''Medical_Score'' (fillna 60 (series_map MEDICAL_SCORE mc)) in
     err_bind (getcol df1 ''Leadership_Potential'') (\<lambda>lp.
     let df2 = setcol df1 ''Leadership_Score'' (fillna 1 (series_map LEADERSHIP_MAP lp)) in
     err_bind (getcol df2 ''Readiness_Level'') (\<lambda>rl.
     let df3 = setcol df2 ''Readiness_Score'' (fillna 1 (series_map READINESS_SCORE rl)) in
     if ''Attrition_Risk'' \<in> set (columns df3)
     then err_bind (getcol df3 ''Attrition_Risk'') (\<lambda>ar.
            Inr (setcol df3 ''Attrition_Score'' (fillna 2 (series_map ATTRITION_RISK_MAP ar))))
     else Inr (setcol df3 ''Attrition_Score'' (replicate (length (rws df3)) (Num 2))))))"


section \<open>Series and frame operations\<close>

text \<open>
  A comparison of a series with a number (\<^verbatim>\<open>series > 20\<close>) is element-wise: a missing
  value compares false, a text cannot be ordered against a number and raises.
\<close>

fun is_text :: "cell \<Rightarrow> bool" where
  "is_text (Str s) = True"
| "is_text v = False"

definition compare_series :: "(real \<Rightarrow> bool) \<Rightarrow> cell list \<Rightarrow> error + bool list" where
  "compare_series p vs =
     (if list_ex is_text vs then Inl TypeError
      else Inr (map (\<lambda>v. case v of Num x \<Rightarrow> p x | _ \<Rightarrow> False) vs))"

text \<open>\<^verbatim>\<open>series.isin(values)\<close> for a list of texts, and \<^verbatim>\<open>series == text\<close>.\<close>

definition isin :: "cell list \<Rightarrow> string list \<Rightarrow> bool list" where
  "isin vs ts = map (\<lambda>v. case v of Str s \<Rightarrow> s \<in> set ts | _ \<Rightarrow> False) vs"

definition eq_text :: "cell list \<Rightarrow> string \<Rightarrow> bool list" where
  "eq_text vs t = map (\<lambda>v. v = Str t) vs"

text \<open>\<^verbatim>\<open>df[mask]\<close>, \<^verbatim>\<open>df.head(n)\<close>, \<^verbatim>\<open>df[[c1, ..., cn]]\<close>, \<^verbatim>\<open>df.to_dict(orient="records")\<close>.\<close>

definition mask_rows :: "frame \<Rightarrow> bool list \<Rightarrow> frame" where
  "mask_rows df m = df\<lparr>rws := map fst (filter snd (zip (rws df) m))\<rparr>"

definition head_rows :: "int \<Rightarrow> 'a list \<Rightarrow> 'a list" where
  "head_rows n xs = (if 0 \<le> n then take (nat n) xs else take (length xs - nat (- n)) xs)"

definition head :: "int \<Rightarrow> frame \<Rightarrow> frame" where
  "head n df = df\<lparr>rws := head_rows n (rws df)\<rparr>"

definition select_cols :: "frame \<Rightarrow> string list \<Rightarrow> error + frame" where
  "select_cols df cs =
     (case filter (\<lambda>c. c \<notin> set (columns df)) cs of
        [] \<Rightarrow> Inr (df\<lparr>columns := cs\<rparr>)
      | c # _ \<Rightarrow> Inl (KeyError c))"

type_synonym record_list = "(string \<times> cell) list list"

definition to_records :: "frame \<Rightarrow> record_list" where
  "to_records df = map (\<lambda>r. map (\<lambda>c. (c, snd r c)) (columns df)) (rws df)"

subsection \<open>Sorting\<close>

text \<open>
  Text is ordered by code point, position by position. Within a sort key, numbers come
  before text and missing values come last whatever the direction. \<^verbatim>\<open>sort_values\<close>
  is modelled as a stable sort: rows that tie on every key keep their order.
\<close>

fun str_lt :: "string \<Rightarrow> string \<Rightarrow> bool" where
  "str_lt [] [] = False"
| "str_lt [] (y # ys) = True"
| "str_lt (x # xs) [] = False"
| "str_lt (x # xs) (y # ys) = (if x = y then str_lt xs ys else (of_char x :: nat) < of_char y)"

fun cell_lt :: "cell \<Rightarrow> cell \<Rightarrow> bool" where
  "cell_lt (Num a) (Num b) = (a < b)"
| "cell_lt (Str a) (Str b) = str_lt a b"
| "cell_lt (Num a) (Str b) = True"
| "cell_lt u v = False"

fun before :: "bool \<Rightarrow> cell \<Rightarrow> cell \<Rightarrow> bool" where
  "before asc NaN v = False"
| "before asc u NaN = True"
| "before asc u v = (if asc then cell_lt u v else cell_lt v u)"

fun keys_le :: "(string \<times> bool) list \<Rightarrow> (string \<Rightarrow> cell) \<Rightarrow> (string \<Rightarrow> cell) \<Rightarrow> bool" where
  "keys_le [] x y = True"
| "keys_le ((c, asc) # ks) x y =
     (if before asc (x c) (y c) then True
      else if before asc (y c) (x c) then False
      else keys_le ks x y)"

fun insort_by :: "('a \<Rightarrow> 'a \<Rightarrow> bool) \<Rightarrow> 'a \<Rightarrow> 'a list \<Rightarrow> 'a list" where
  "insort_by le x [] = [x]"
| "insort_by le x (y # ys) = (if le x y then x # y # ys else y # insort_by le x ys)"

definition sort_by :: "('a \<Rightarrow> 'a \<Rightarrow> bool) \<Rightarrow> 'a list \<Rightarrow> 'a list" where
  "sort_by le xs = foldr (insort_by le) xs []"

text \<open>\<^verbatim>\<open>df.sort_values(by, ascending)\<close>: each key is a column name with its direction
  (\<open>True\<close> for ascending).\<close>

definition sort_values :: "frame \<Rightarrow> (string \<times> bool) list \<Rightarrow> error + frame" where
  "sort_values df keys =
     (case filter (\<lambda>c. c \<notin> set (columns df)) (map fst keys) of
        [] \<Rightarrow> Inr (df\<lparr>rws := sort_by (\<lambda>x y. keys_le keys (snd x) (snd y)) (rws df)\<rparr>)
      | c # _ \<Rightarrow> Inl (KeyError c))"

section \<open>Report generators\<close>

definition heuristic_label :: "bool \<Rightarrow> bool \<Rightarrow> bool \<Rightarrow> cell" where
  "heuristic_label b1 b2 b3 =
     (let score = (of_bool b1 + of_bool b2 + of_bool b3 :: int)
      in if score \<ge> 2 then Str ''High'' else if score = 1 then Str ''Medium'' else Str ''Low'')"

definition who_is_going_to_leave :: "frame \<Rightarrow> int \<Rightarrow> error + frame" where
  "who_is_going_to_leave df top_n =
     err_bind (add_derived_columns df) (\<lambda>d.
     if ''Attrition_Risk'' \<in> set (columns d)
     then
       err_bind (sort_values d [(''Attrition_Score'', False), (''Years_of_Service'', True)]) (\<lambda>out.
       err_bind (select_cols out [''Personnel_ID'', ''Name'', ''Rank'', ''Years_of_Service'',
                                  ''Attrition_Risk'', ''Performance_Rating'']) (\<lambda>sel.
       Inr (head top_n sel)))
     else
       err_bind (getcol d ''Years_of_Service'') (\<lambda>yos.
       err_bind (compare_series (\<lambda>x. x > 20) (fillna 0 yos)) (\<lambda>b1.
       err_bind (getcol d ''Performance_Rating'') (\<lambda>pr.
       err_bind (compare_series (\<lambda>x. x \<le> 2) (fillna 3 pr)) (\<lambda>b2.
       err_bind (getcol d ''Training_Score'') (\<lambda>ts.
       err_bind (compare_series (\<lambda>x. x < 50) (fillna 60 ts)) (\<lambda>b3.
       let d' = setcol d ''Heuristic_Attrition''
                  (map (\<lambda>(a, b, c). heuristic_label a b c) (zip b1 (zip b2 b3))) in
       err_bind (sort_values d' [(''Heuristic_Attrition'', False), (''Years_of_Service'', True)]) (\<lambda>out.
       err_bind (select_cols out [''Personnel_ID'', ''Name'', ''Rank'', ''Years_of_Service'',
                                  ''Heuristic_Attrition'', ''Performance_Rating'']) (\<lambda>sel.
       Inr (head top_n sel))))))))))"

definition medical_scores :: "frame \<Rightarrow> error + frame" where
  "medical_scores df =
     err_bind (add_derived_columns df) (\<lambda>d.
     select_cols d [''Personnel_ID'', ''Name'', ''Rank'', ''Medical_Category'', ''Medical_Score'',
                    ''BMI'', ''Last_Medical_Checkup''])"

definition who_needs_training :: "frame \<Rightarrow> int \<Rightarrow> error + frame" where
  "who_needs_training df thresh =
     err_bind (add_derived_columns df) (\<lambda>d.
     err_bind (getcol d ''Training_Score'') (\<lambda>ts.
     err_bind (compare_series (\<lambda>x. x < real_of_int thresh) (fillna 0 ts)) (\<lambda>m.
     err_bind (select_cols (mask_rows d m)
                 [''Personnel_ID'', ''Name'', ''Rank'', ''Training_Course'', ''Training_Score'',
                  ''Performance_Rating'']) (\<lambda>need.
     sort_values need [(''Training_Score'', True)]))))"

definition leadership_list :: "frame \<Rightarrow> error + frame" where
  "leadership_list df =
     err_bind (add_derived_columns df) (\<lambda>d.
     let cols = filter (\<lambda>c. c \<in> set (columns d))
                  [''Personnel_ID'', ''Name'', ''Rank'', ''Primary_Skill'',
                   ''Leadership_Potential'', ''Performance_Rating'', ''Missions_Completed''] in
     err_bind (sort_values d [(''Leadership_Score'', False), (''Performance_Rating'', False)]) (\<lambda>s.
     select_cols s cols))"


text \<open>
  \<^verbatim>\<open>skill_grouping\<close>: the groups of \<^verbatim>\<open>groupby\<close> come in the order of their keys,
  rows with a missing skill belong to no group.
\<close>

fun unique :: "cell list \<Rightarrow> cell list" where
  "unique [] = []"
| "unique (v # vs) = v # unique (filter (\<lambda>u. u \<noteq> v) vs)"

definition dropna :: "cell list \<Rightarrow> cell list" where
  "dropna vs = filter (\<lambda>v. v \<noteq> NaN) vs"

fun group_records :: "frame \<Rightarrow> cell list \<Rightarrow> error + (cell \<times> record_list) list" where
  "group_records df [] = Inr []"
| "group_records df (k # ks) =
     err_bind (select_cols (mask_rows df (map (\<lambda>r. snd r ''Primary_Skill'' = k) (rws df)))
                 [''Personnel_ID'', ''Name'', ''Rank'', ''Performance_Rating'',
                  ''Readiness_Level'', ''Medical_Category'']) (\<lambda>g.
     err_bind (group_records df ks) (\<lambda>rest.
     Inr ((k, to_records g) # rest)))"

definition skill_grouping :: "frame \<Rightarrow> error + (cell \<times> record_list) list" where
  "skill_grouping df =
     (if ''Primary_Skill'' \<in> set (columns df)
      then err_bind (getcol df ''Primary_Skill'') (\<lambda>ps.
             group_records df (sort_by (\<lambda>u v. \<not> cell_lt v u) (unique (dropna ps))))
      else Inr [])"

section \<open>Team selection\<close>

text \<open>
  A series of floating-point numbers is a list of \<open>real option\<close>, \<open>None\<close> being NaN.
  \<^verbatim>\<open>pd.to_numeric(series, errors="coerce")\<close> keeps numbers and converts text with the
  library's parser, which is a parameter \<open>parse\<close> of the model (\<open>None\<close> where the
  text is no number).
\<close>

definition to_numeric :: "(string \<Rightarrow> real option) \<Rightarrow> cell list \<Rightarrow> real option list" where
  "to_numeric parse = map (\<lambda>v. case v of Num x \<Rightarrow> Some x | Str s \<Rightarrow> parse s | NaN \<Rightarrow> None)"

definition fill_float :: "real \<Rightarrow> real option list \<Rightarrow> cell list" where
  "fill_float x = map (\<lambda>v. case v of Some y \<Rightarrow> Num y | None \<Rightarrow> Num x)"

definition numeric_cast :: "(string \<Rightarrow> real option) \<Rightarrow> string \<Rightarrow> frame \<Rightarrow> frame" where
  "numeric_cast parse col d =
     (if col \<in> set (columns d)
      then setcol d col (fill_float 0 (to_numeric parse (map (\<lambda>r. snd r col) (rws d))))
      else setcol d col (replicate (length (rws d)) (Num 0)))"

definition derive_if_absent :: "string \<Rightarrow> string \<Rightarrow> (string \<rightharpoonup> real) \<Rightarrow> frame \<Rightarrow> frame" where
  "derive_if_absent score source table d =
     (if score \<notin> set (columns d) \<and> source \<in> set (columns d)
      then setcol d score (fillna 0 (series_map table (map (\<lambda>r. snd r source) (rws d))))
      else d)"

text \<open>
  Arithmetic on floating-point values, NaN propagating. \<^verbatim>\<open>series.max()\<close> skips NaN and
  is NaN on an empty series; Python's \<^verbatim>\<open>max(a, 1)\<close> keeps a NaN first argument.
\<close>

fun num_of :: "cell \<Rightarrow> real option" where
  "num_of (Num x) = Some x"
| "num_of v = None"

fun cell_of :: "real option \<Rightarrow> cell" where
  "cell_of (Some x) = Num x"
| "cell_of None = NaN"

fun fbin :: "(real \<Rightarrow> real \<Rightarrow> real) \<Rightarrow> real option \<Rightarrow> real option \<Rightarrow> real option" where
  "fbin f (Some a) (Some b) = Some (f a b)"
| "fbin f a b = None"

fun series_max :: "cell list \<Rightarrow> real option" where
  "series_max [] = None"
| "series_max (v # vs) =
     (case (num_of v, series_max vs) of
        (Some a, Some b) \<Rightarrow> Some (max a b)
      | (Some a, None) \<Rightarrow> Some a
      | (None, m) \<Rightarrow> m)"

definition py_max :: "real option \<Rightarrow> real \<Rightarrow> real option" where
  "py_max a b = (case a of None \<Rightarrow> None | Some x \<Rightarrow> Some (if b > x then b else x))"

definition perf_denominator :: "real option \<Rightarrow> real option" where
  "perf_denominator m = (case m of Some x \<Rightarrow> (if x \<le> 5 then Some 5 else py_max m 1) | None \<Rightarrow> py_max m 1)"

definition overall :: "real option \<Rightarrow> real option \<Rightarrow> (string \<Rightarrow> cell) \<Rightarrow> cell" where
  "overall denom_missions denom_perf r =
     (let perf_norm = fbin (/) (num_of (r ''Performance_Rating'')) denom_perf;
          train_norm = fbin (/) (num_of (r ''Training_Score'')) (Some 100);
          medical_norm = fbin (/) (num_of (r ''Medical_Score'')) (Some 100)
      in cell_of
          (fbin (+) (fbin (+) (fbin (+) (fbin (+) (fbin (+)
             (fbin (*) (Some 2.5) (num_of (r ''Readiness_Score'')))
             (fbin (*) (Some 1.5) (num_of (r ''Leadership_Score''))))
             (fbin (*) (Some 1.2) perf_norm))
             (fbin (*) (Some 1.0) medical_norm))
             (fbin (*) (Some 0.6) train_norm))
             (fbin (*) (Some 0.4)
                (fbin (/) (num_of (r ''Missions_Completed'')) denom_missions))))"

text \<open>
  The first half of \<^verbatim>\<open>select_best_team\<close>: the enriched copy with its numeric casts and
  the \<^verbatim>\<open>Overall\<close> column. All six columns of the formula hold numbers at that point
  (the three casts and the derived scores).
\<close>

definition score_table :: "(string \<Rightarrow> real option) \<Rightarrow> frame \<Rightarrow> error + frame" where
  "score_table parse df =
     err_bind (add_derived_columns df) (\<lambda>d0.
     let d1 = fold (numeric_cast parse)
                [''Performance_Rating'', ''Training_Score'', ''Missions_Completed''] d0;
         d2 = derive_if_absent ''Medical_Score'' ''Medical_Category'' MEDICAL_SCORE d1;
         d3 = derive_if_absent ''Readiness_Score'' ''Readiness_Level'' READINESS_SCORE d2;
         d = derive_if_absent ''Leadership_Score'' ''Leadership_Potential'' LEADERSHIP_MAP d3 in
     err_bind (getcol d ''Missions_Completed'') (\<lambda>missions.
     let denom_missions = py_max (series_max missions) 1 in
     err_bind (getcol d ''Performance_Rating'') (\<lambda>perf.
     let denom_perf = perf_denominator (series_max perf) in
     Inr (setcol d ''Overall'' (map (\<lambda>r. overall denom_missions denom_perf (snd r)) (rws d))))))"

text \<open>
  \<^verbatim>\<open>required_roles\<close> is \<^verbatim>\<open>None\<close> or a list; both \<^verbatim>\<open>None\<close> and the empty list are
  false in a condition.
\<close>

fun truthy :: "string list option \<Rightarrow> bool" where
  "truthy (Some (r # rs)) = True"
| "truthy v = False"

fun role_list :: "string list option \<Rightarrow> string list" where
  "role_list (Some rs) = rs"
| "role_list None = []"

text \<open>\<^verbatim>\<open>d.drop(index=labels)\<close>, \<^verbatim>\<open>d.loc[labels]\<close> and \<^verbatim>\<open>pd.concat([a, b])\<close>.\<close>

definition drop_index :: "frame \<Rightarrow> nat list \<Rightarrow> frame" where
  "drop_index d labels = d\<lparr>rws := filter (\<lambda>r. fst r \<notin> set labels) (rws d)\<rparr>"

definition loc :: "frame \<Rightarrow> nat list \<Rightarrow> frame" where
  "loc d labels = d\<lparr>rws := concat (map (\<lambda>l. filter (\<lambda>r. fst r = l) (rws d)) labels)\<rparr>"

definition concat_frames :: "frame \<Rightarrow> frame \<Rightarrow> frame" where
  "concat_frames a b = a\<lparr>rws := rws a @ rws b\<rparr>"

text \<open>The loop over the required roles: the label of the best row of each role that has rows.\<close>

fun pick_roles :: "frame \<Rightarrow> string list \<Rightarrow> error + nat list" where
  "pick_roles d [] = Inr []"
| "pick_roles d (role # roles) =
     err_bind (getcol d ''Primary_Skill'') (\<lambda>ps.
     let sub = mask_rows d (eq_text ps role) in
     err_bind (if length (rws sub) \<noteq> 0
               then err_bind (sort_values sub [(''Overall'', False)]) (\<lambda>s.
                      case rws s of [] \<Rightarrow> Inl IndexError | r # _ \<Rightarrow> Inr [fst r])
               else Inr []) (\<lambda>p.
     err_bind (pick_roles d roles) (\<lambda>more.
     Inr (p @ more))))"

text \<open>\<^verbatim>\<open>list(dict.fromkeys(cols))\<close>: duplicates removed, first occurrences kept.\<close>

fun dedupe :: "string list \<Rightarrow> string list" where
  "dedupe [] = []"
| "dedupe (c # cs) = c # dedupe (filter (\<lambda>x. x \<noteq> c) cs)"

text \<open>
  The second half of \<^verbatim>\<open>select_best_team\<close>, from the role restriction to the returned
  columns, on the scored frame \<open>d0\<close>.
\<close>

definition choose_team :: "frame \<Rightarrow> int \<Rightarrow> string list option \<Rightarrow> bool \<Rightarrow> error + frame" where
  "choose_team d0 headcount required_roles restrict_to_roles =
     err_bind (if restrict_to_roles \<and> truthy required_roles
               then err_bind (getcol d0 ''Primary_Skill'') (\<lambda>ps.
                      Inr (mask_rows d0 (isin ps (role_list required_roles))))
               else Inr d0) (\<lambda>d.
     err_bind (if truthy required_roles \<and> \<not> restrict_to_roles
               then pick_roles d (role_list required_roles)
               else Inr []) (\<lambda>picked_idx.
     let remaining = headcount - int (length picked_idx) in
     err_bind (sort_values (drop_index d picked_idx) [(''Overall'', False)]) (\<lambda>sorted_rest.
     let rest = head (max 0 remaining) sorted_rest in
     err_bind (sort_values (concat_frames (loc d picked_idx) rest) [(''Overall'', False)]) (\<lambda>sorted_team.
     let team = head headcount sorted_team;
         cols = filter (\<lambda>c. c \<in> set (columns team))
                  [''Personnel_ID'', ''Name'', ''Rank'', ''Primary_Skill'', ''Readiness_Level'',
                   ''Medical_Category'', ''Leadership_Potential'', ''Performance_Rating'',
                   ''Overall''] @ [''Overall''] in
     select_cols team (dedupe cols)))))"

definition select_best_team ::
  "(string \<Rightarrow> real option) \<Rightarrow> frame \<Rightarrow> int \<Rightarrow> string list option \<Rightarrow> bool \<Rightarrow> error + frame" where
  "select_best_team parse df headcount required_roles restrict_to_roles =
     err_bind (score_table parse df) (\<lambda>d0.
     choose_team d0 headcount required_roles restrict_to_roles)"

section \<open>Text\<close>

text \<open>
  Query texts and skill names are byte strings; \<^verbatim>\<open>str.lower\<close> is modelled on the ASCII
  letters and leaves every other byte as it is. \<open>substr needle hay\<close> is Python's
  \<^verbatim>\<open>needle in hay\<close>, \<open>find hay needle\<close> is \<^verbatim>\<open>hay.find(needle)\<close>.
\<close>

definition lower_char :: "char \<Rightarrow> char" where
  "lower_char c =
     (case map_of (zip ''ABCDEFGHIJKLMNOPQRSTUVWXYZ'' ''abcdefghijklmnopqrstuvwxyz'') c of
        Some l \<Rightarrow> l
      | None \<Rightarrow> c)"

definition lower :: "string \<Rightarrow> string" where
  "lower s = map lower_char s"

fun is_prefix :: "string \<Rightarrow> string \<Rightarrow> bool" where
  "is_prefix [] hay = True"
| "is_prefix (n # ns) [] = False"
| "is_prefix (n # ns) (h # hs) = (n = h \<and> is_prefix ns hs)"

fun substr :: "string \<Rightarrow> string \<Rightarrow> bool" where
  "substr needle [] = (needle = [])"
| "substr needle (h # hs) = (is_prefix needle (h # hs) \<or> substr needle hs)"

fun find_from :: "nat \<Rightarrow> string \<Rightarrow> string \<Rightarrow> int" where
  "find_from i [] needle = (if needle = [] then int i else - 1)"
| "find_from i (h # hs) needle =
     (if is_prefix needle (h # hs) then int i else find_from (Suc i) hs needle)"

definition find :: "string \<Rightarrow> string \<Rightarrow> int" where
  "find hay needle = find_from 0 hay needle"

text \<open>
  The two regular expressions of the router: \<^verbatim>\<open>(\d{2})\<close> finds the leftmost two
  adjacent digits, \<^verbatim>\<open>(\d{1,3})\<close> the leftmost digit and up to two digits after it.
  The result is the number that \<^verbatim>\<open>int\<close> reads from the match.
\<close>

definition is_digit :: "char \<Rightarrow> bool" where
  "is_digit c = (c \<in> set ''0123456789'')"

definition digit_val :: "char \<Rightarrow> nat" where
  "digit_val c = of_char c - 48"

definition int_of_digits :: "string \<Rightarrow> nat" where
  "int_of_digits ds = foldl (\<lambda>n c. 10 * n + digit_val c) 0 ds"

fun search_two_digits :: "string \<Rightarrow> nat option" where
  "search_two_digits (a # b # cs) =
     (if is_digit a \<and> is_digit b then Some (int_of_digits [a, b])
      else search_two_digits (b # cs))"
| "search_two_digits cs = None"

fun search_digits :: "string \<Rightarrow> nat option" where
  "search_digits [] = None"
| "search_digits (a # cs) =
     (if is_digit a then Some (int_of_digits (takeWhile is_digit (take 3 (a # cs))))
      else search_digits cs)"

fun show_nat :: "nat \<Rightarrow> string" where
  "show_nat n =
     (if n < 10 then [char_of (48 + n)] else show_nat (n div 10) @ [char_of (48 + n mod 10)])"

text \<open>
  The \<^verbatim>\<open>.str\<close> accessor of a series exists on a column of text (object) dtype only; on
  a numeric column, which includes a column whose cells are all missing, reading it
  raises an AttributeError. The dtype of a column is fixed when \<^verbatim>\<open>read_csv\<close> reads the
  table: a column has text dtype when one of its cells is text, or when the table has
  no rows. Copies and row selections keep the dtype, so for a frame derived from a
  table the dtype is that of the table's column.
\<close>

definition object_dtype :: "frame \<Rightarrow> string \<Rightarrow> bool" where
  "object_dtype df c = (rws df = [] \<or> list_ex is_text (map (\<lambda>r. snd r c) (rws df)))"

text \<open>
  \<^verbatim>\<open>series.str.contains(pattern, case=False, na=False)\<close>, given whether the series has
  text dtype: the patterns of the source are plain words joined by \<^verbatim>\<open>|\<close>, given here as
  the list of alternatives; a cell that is no text does not match. Letter case is folded
  on the ASCII letters, which is the library's matching on ASCII text. A skill name used
  as a pattern is taken as plain text.
\<close>

definition str_contains :: "bool \<Rightarrow> cell list \<Rightarrow> string list \<Rightarrow> error + bool list" where
  "str_contains text_dtype vs alts =
     (if text_dtype
      then Inr (map (\<lambda>v. case v of
                          Str s \<Rightarrow> list_ex (\<lambda>a. substr (lower a) (lower s)) alts
                        | _ \<Rightarrow> False) vs)
      else Inl AttributeError)"

text \<open>\<^verbatim>\<open>series.mean()\<close>: the mean of the values that are present; text cannot be averaged.\<close>

definition mean :: "cell list \<Rightarrow> error + real option" where
  "mean vs =
     (if list_ex is_text vs then Inl TypeError
      else (case filter (\<lambda>v. v \<noteq> None) (map num_of vs) of
              [] \<Rightarrow> Inr None
            | xs \<Rightarrow> Inr (Some (sum_list (map the xs) / real (length xs)))))"

section \<open>What-if scenarios\<close>

text \<open>
  Every analyser returns its action tag, its fixed recommendations and the records of
  the rows it selected. The narrative text, formatted from counts and floating-point
  means, is left out of the model; the column reads and computations made to build it
  are kept, since they can fail. The language-model client is passed around by the
  source but never used.
\<close>

record scenario =
  action :: string
  recommendations :: "string list"
  data :: record_list

definition analyze_retirement_scenario :: "frame \<Rightarrow> string \<Rightarrow> error + scenario" where
  "analyze_retirement_scenario df text_low =
     err_bind (add_derived_columns df) (\<lambda>d.
     err_bind (if substr ''senior'' text_low
               then err_bind (getcol d ''Years_of_Service'') (\<lambda>yos.
                    err_bind (compare_series (\<lambda>x. x \<ge> 15) yos) (\<lambda>m. Inr (mask_rows d m)))
               else Inr d) (\<lambda>c1.
     err_bind (if substr ''officer'' text_low
               then err_bind (getcol c1 ''Rank'') (\<lambda>rk.
                    err_bind (str_contains (object_dtype df ''Rank'') rk
                                [''Officer'', ''Captain'', ''Major'', ''Colonel'']) (\<lambda>m.
                    Inr (mask_rows c1 m)))
               else Inr c1) (\<lambda>c2.
     err_bind (if substr ''pilot'' text_low
               then err_bind (getcol c2 ''Primary_Skill'') (\<lambda>ps.
                    err_bind (str_contains (object_dtype df ''Primary_Skill'') ps [''Pilot'']) (\<lambda>m.
                    Inr (mask_rows c2 m)))
               else Inr c2) (\<lambda>c3.
     err_bind (if substr ''engineer'' text_low
               then err_bind (getcol c3 ''Primary_Skill'') (\<lambda>ps.
                    err_bind (str_contains (object_dtype df ''Primary_Skill'') ps [''Engineer'']) (\<lambda>m.
                    Inr (mask_rows c3 m)))
               else Inr c3) (\<lambda>retirement_candidates.
     let total_affected = length (rws retirement_candidates) in
     err_bind (if total_affected > 0
               then err_bind (getcol retirement_candidates ''Years_of_Service'') mean
               else Inr (Some 0)) (\<lambda>avg_experience.
     err_bind (if total_affected > 0
               then getcol retirement_candidates ''Performance_Rating''
               else Inr []) (\<lambda>performance_dist.
     err_bind (getcol retirement_candidates ''Leadership_Potential'') (\<lambda>lp.
     err_bind (select_cols retirement_candidates
                 [''Personnel_ID'', ''Name'', ''Rank'', ''Primary_Skill'', ''Years_of_Service'',
                  ''Performance_Rating'', ''Leadership_Potential'']) (\<lambda>sel.
     Inr \<lparr>action = ''retirement_impact'',
          recommendations =
            [''Develop succession planning for critical roles'',
             ''Accelerate leadership development programs'',
             ''Consider phased retirement to retain knowledge'',
             ''Implement knowledge transfer protocols''],
          data = to_records sel\<rparr>)))))))))"

fun truthy_text :: "string option \<Rightarrow> bool" where
  "truthy_text (Some (c # cs)) = True"
| "truthy_text v = False"

fun redeploy_skills ::
  "string \<Rightarrow> cell list \<Rightarrow> string option \<Rightarrow> string option \<Rightarrow> error + string option \<times> string option" where
  "redeploy_skills text_low [] from_skill to_skill = Inr (from_skill, to_skill)"
| "redeploy_skills text_low (v # vs) from_skill to_skill =
     (case v of
        Str skill \<Rightarrow>
          (if substr (lower skill) text_low
           then (if substr ''from'' text_low \<and> find text_low (lower skill) < find text_low ''from''
                 then redeploy_skills text_low vs (Some skill) to_skill
                 else if substr ''to'' text_low \<and> find text_low (lower skill) > find text_low ''to''
                 then redeploy_skills text_low vs from_skill (Some skill)
                 else if \<not> truthy_text from_skill
                 then redeploy_skills text_low vs (Some skill) to_skill
                 else redeploy_skills text_low vs from_skill (Some skill))
           else redeploy_skills text_low vs from_skill to_skill)
      | _ \<Rightarrow> Inl AttributeError)"

definition analyze_redeployment_scenario :: "frame \<Rightarrow> string \<Rightarrow> error + scenario" where
  "analyze_redeployment_scenario df text_low =
     err_bind (add_derived_columns df) (\<lambda>d.
     err_bind (getcol df ''Primary_Skill'') (\<lambda>ps0.
     err_bind (redeploy_skills text_low (unique (dropna ps0)) None None) (\<lambda>(from_skill, to_skill).
     err_bind (if truthy_text from_skill
               then err_bind (getcol d ''Primary_Skill'') (\<lambda>ps.
                    err_bind (str_contains (object_dtype df ''Primary_Skill'') ps [the from_skill]) (\<lambda>m.
                    Inr (mask_rows d m)))
               else err_bind (getcol d ''Performance_Rating'') (\<lambda>pr.
                    Inr (mask_rows d (isin pr [''Below Average'', ''Average''])))) (\<lambda>redeploy_candidates.
     err_bind (select_cols redeploy_candidates
                 [''Personnel_ID'', ''Name'', ''Rank'', ''Primary_Skill'', ''Performance_Rating'',
                  ''Training_Score'']) (\<lambda>sel.
     Inr \<lparr>action = ''redeployment_impact'',
          recommendations =
            [''Assess skill transferability and training needs'',
             ''Plan for knowledge retention in source roles'',
             ''Develop cross-training programs'',
             ''Monitor performance during transition period''],
          data = to_records sel\<rparr>)))))"

definition analyze_grounding_scenario :: "frame \<Rightarrow> string \<Rightarrow> error + scenario" where
  "analyze_grounding_scenario df text_low =
     err_bind (add_derived_columns df) (\<lambda>d.
     err_bind (getcol d ''Primary_Skill'') (\<lambda>ps.
     err_bind (str_contains (object_dtype df ''Primary_Skill'') ps [''Pilot'']) (\<lambda>is_pilot.
     let pilots = mask_rows d is_pilot in
     err_bind (getcol pilots ''Medical_Category'') (\<lambda>mc.
     err_bind (getcol pilots ''Medical_Score'') (\<lambda>ms.
     err_bind (compare_series (\<lambda>x. x < 70) ms) (\<lambda>low_score.
     err_bind (getcol pilots ''BMI'') (\<lambda>bmi.
     err_bind (compare_series (\<lambda>x. x > 30) bmi) (\<lambda>bmi_high.
     err_bind (compare_series (\<lambda>x. x < 18.5) bmi) (\<lambda>bmi_low.
     let medical_issues =
           mask_rows pilots
             (map (\<lambda>(a, b, c, e). a \<or> b \<or> c \<or> e)
                (zip (isin mc [''C1'', ''C2'']) (zip low_score (zip bmi_high bmi_low)))) in
     err_bind (getcol pilots ''Performance_Rating'') (\<lambda>pr.
     err_bind (getcol pilots ''Training_Score'') (\<lambda>ts.
     err_bind (compare_series (\<lambda>x. x \<ge> 80) ts) (\<lambda>trained.
     err_bind (select_cols medical_issues
                 [''Personnel_ID'', ''Name'', ''Rank'', ''Medical_Category'', ''Medical_Score'',
                  ''BMI'', ''Performance_Rating'']) (\<lambda>sel.
     Inr \<lparr>action = ''grounding_impact'',
          recommendations =
            [''Implement medical monitoring programs'',
             ''Develop pilot fitness maintenance protocols'',
             ''Create backup pilot rotation system'',
             ''Consider accelerated pilot training programs''],
          data = to_records sel\<rparr>)))))))))))))"

definition analyze_promotion_scenario :: "frame \<Rightarrow> string \<Rightarrow> error + scenario" where
  "analyze_promotion_scenario df text_low =
     err_bind (add_derived_columns df) (\<lambda>d.
     err_bind (getcol d ''Leadership_Potential'') (\<lambda>lp.
     err_bind (getcol d ''Performance_Rating'') (\<lambda>pr.
     err_bind (getcol d ''Years_of_Service'') (\<lambda>yos.
     err_bind (compare_series (\<lambda>x. x \<ge> 5) yos) (\<lambda>served.
     err_bind (sort_values
                 (mask_rows d
                    (map (\<lambda>(a, b, c). a \<and> b \<and> c)
                       (zip (isin lp [''High'', ''Yes''])
                          (zip (isin pr [''Excellent'', ''Good'']) served))))
                 [(''Leadership_Score'', False), (''Performance_Rating'', False)]) (\<lambda>promotion_candidates.
     err_bind (getcol promotion_candidates ''Primary_Skill'') (\<lambda>skill_distribution.
     err_bind (select_cols promotion_candidates
                 [''Personnel_ID'', ''Name'', ''Rank'', ''Primary_Skill'', ''Leadership_Potential'',
                  ''Performance_Rating'', ''Years_of_Service'']) (\<lambda>sel.
     Inr \<lparr>action = ''promotion_impact'',
          recommendations =
            [''Implement structured promotion criteria'',
             ''Develop leadership development programs'',
             ''Create mentorship opportunities'',
             ''Plan for role transitions and knowledge transfer''],
          data = to_records sel\<rparr>))))))))"

definition analyze_budget_scenario :: "frame \<Rightarrow> string \<Rightarrow> error + scenario" where
  "analyze_budget_scenario df text_low =
     err_bind (add_derived_columns df) (\<lambda>d.
     err_bind (err_bind (getcol d ''Training_Score'') mean) (\<lambda>avg_training_cost.
     err_bind (err_bind (getcol d ''Medical_Score'') mean) (\<lambda>avg_medical_cost.
     err_bind (getcol d ''Training_Score'') (\<lambda>ts.
     err_bind (compare_series (\<lambda>x. x > 80) ts) (\<lambda>costly_training.
     err_bind (getcol d ''Medical_Score'') (\<lambda>ms.
     err_bind (compare_series (\<lambda>x. x < 70) ms) (\<lambda>costly_medical.
     err_bind (getcol d ''Performance_Rating'') (\<lambda>pr.
     let high_cost_personnel =
           mask_rows d
             (map (\<lambda>(a, b, c). a \<or> b \<or> c)
                (zip costly_training (zip costly_medical (isin pr [''Below Average'', ''Average''])))) in
     err_bind (select_cols high_cost_personnel
                 [''Personnel_ID'', ''Name'', ''Rank'', ''Primary_Skill'', ''Training_Score'',
                  ''Medical_Score'', ''Performance_Rating'']) (\<lambda>sel.
     Inr \<lparr>action = ''budget_impact'',
          recommendations =
            [''Implement cost optimization strategies'',
             ''Focus training investments on high-potential personnel'',
             ''Develop preventive medical programs'',
             ''Consider performance-based resource allocation''],
          data = to_records sel\<rparr>)))))))))"


section \<open>The query router\<close>

text \<open>
  The result dictionary: the scenario fields and the query. The branches that answer
  directly leave the recommendations empty, as the initial dictionary has them.
\<close>

record result = scenario +
  query :: string

definition with_query :: "string \<Rightarrow> scenario \<Rightarrow> result" where
  "with_query text sc =
     \<lparr>action = action sc, recommendations = recommendations sc, data = data sc, query = text\<rparr>"

text \<open>
  The skills named in the query. A skill that is no text has no \<^verbatim>\<open>lower\<close> method.
  The leadership branch stops at the first skill it finds; the team branch collects all.
\<close>

fun first_skill :: "string \<Rightarrow> cell list \<Rightarrow> error + string option" where
  "first_skill text_low [] = Inr None"
| "first_skill text_low (v # vs) =
     (case v of
        Str s \<Rightarrow> (if substr (lower s) text_low then Inr (Some s) else first_skill text_low vs)
      | _ \<Rightarrow> Inl AttributeError)"

fun mentioned_skills :: "string \<Rightarrow> cell list \<Rightarrow> error + string list" where
  "mentioned_skills text_low [] = Inr []"
| "mentioned_skills text_low (v # vs) =
     (case v of
        Str s \<Rightarrow>
          err_bind (mentioned_skills text_low vs) (\<lambda>more.
          Inr (if substr (lower s) text_low then s # more else more))
      | _ \<Rightarrow> Inl AttributeError)"

definition mentions :: "string \<Rightarrow> string list \<Rightarrow> bool" where
  "mentions text_low ws = list_ex (\<lambda>w. substr w text_low) ws"

text \<open>
  The conditions of the \<^verbatim>\<open>if\<close>/\<^verbatim>\<open>elif\<close> chain, in its order: the first one that holds
  names the branch.
\<close>

datatype branch =
  Retirement | Redeployment | Grounding | Promotion | Budget | Training | Leadership | Team
  | Default

definition route :: "string \<Rightarrow> branch" where
  "route text_low =
     (if mentions text_low [''retire'', ''retiring'', ''retirement''] then Retirement
      else if mentions text_low [''redeploy'', ''redeployment'', ''transfer'', ''move''] then Redeployment
      else if mentions text_low [''ground'', ''grounding'', ''medical'', ''unfit'', ''disqualify'']
      then Grounding
      else if mentions text_low [''promote'', ''promotion'', ''advance''] then Promotion
      else if mentions text_low [''budget'', ''cost'', ''financial'', ''expense''] then Budget
      else if substr ''training'' text_low
              \<and> mentions text_low [''threshold'', ''score'', ''<'', ''less than'', ''below'']
      then Training
      else if substr ''leaders'' text_low \<or> substr ''leadership'' text_low then Leadership
      else if substr ''team'' text_low \<or> substr ''readiness'' text_low then Team
      else Default)"

definition what_if_simulation ::
  "(string \<Rightarrow> real option) \<Rightarrow> frame \<Rightarrow> string \<Rightarrow> error + result" where
  "what_if_simulation parse df text =
     (let text_low = lower text in
      case route text_low of
        Retirement \<Rightarrow>
          err_bind (analyze_retirement_scenario df text_low) (\<lambda>sc. Inr (with_query text sc))
      | Redeployment \<Rightarrow>
          err_bind (analyze_redeployment_scenario df text_low) (\<lambda>sc. Inr (with_query text sc))
      | Grounding \<Rightarrow>
          err_bind (analyze_grounding_scenario df text_low) (\<lambda>sc. Inr (with_query text sc))
      | Promotion \<Rightarrow>
          err_bind (analyze_promotion_scenario df text_low) (\<lambda>sc. Inr (with_query text sc))
      | Budget \<Rightarrow>
          err_bind (analyze_budget_scenario df text_low) (\<lambda>sc. Inr (with_query text sc))
      | Training \<Rightarrow>
          (let thresh = (case search_two_digits text_low of Some n \<Rightarrow> n | None \<Rightarrow> 60) in
           err_bind (who_needs_training df (int thresh)) (\<lambda>need.
           Inr \<lparr>action = ''show_training_below_'' @ show_nat thresh, recommendations = [],
                data = to_records need, query = text\<rparr>))
      | Leadership \<Rightarrow>
          err_bind (getcol df ''Primary_Skill'') (\<lambda>ps.
          err_bind (first_skill text_low (unique (dropna ps))) (\<lambda>skill.
          err_bind (leadership_list df) (\<lambda>tab.
          err_bind (if truthy_text skill
                    then err_bind (getcol tab ''Primary_Skill'') (\<lambda>tps.
                         Inr (mask_rows tab
                                (map (\<lambda>v. case v of Str s \<Rightarrow> lower s = lower (the skill) | _ \<Rightarrow> False)
                                   tps)))
                    else Inr tab) (\<lambda>tab.
          Inr \<lparr>action = ''show_leadership'', recommendations = [],
               data = to_records (head 50 tab), query = text\<rparr>))))
      | Team \<Rightarrow>
          (let n = (case search_digits text_low of Some k \<Rightarrow> k | None \<Rightarrow> 10) in
           err_bind (getcol df ''Primary_Skill'') (\<lambda>ps.
           err_bind (mentioned_skills text_low (unique (dropna ps))) (\<lambda>roles.
           err_bind (select_best_team parse df (int n) (if roles = [] then None else Some roles) False)
             (\<lambda>team.
           Inr \<lparr>action = ''select_team'', recommendations = [],
                data = to_records team, query = text\<rparr>))))
      | Default \<Rightarrow>
          err_bind (who_is_going_to_leave df 50) (\<lambda>out.
          Inr \<lparr>action = ''show_attrition'', recommendations = [],
               data = to_records out, query = text\<rparr>))"

text \<open>
  The tables on which the attrition ranking returns: the columns it reads are there,
  and when there is no \<^verbatim>\<open>Attrition_Risk\<close> column the three columns of the heuristic
  hold numbers or missing values, which is what its comparisons accept. This is narrower
  than the data model, which allows categorical performance ratings.
\<close>

definition numeric_column :: "frame \<Rightarrow> string \<Rightarrow> bool" where
  "numeric_column df c = (\<not> list_ex is_text (map (\<lambda>r. snd r c) (rws df)))"

definition attrition_ready :: "frame \<Rightarrow> bool" where
  "attrition_ready df =
     (set [''Medical_Category'', ''Leadership_Potential'', ''Readiness_Level'', ''Personnel_ID'',
           ''Name'', ''Rank'', ''Years_of_Service'', ''Performance_Rating''] \<subseteq> set (columns df)
      \<and> (''Attrition_Risk'' \<in> set (columns df)
         \<or> ''Training_Score'' \<in> set (columns df)
           \<and> numeric_column df ''Years_of_Service''
           \<and> numeric_column df ''Performance_Rating''
           \<and> numeric_column df ''Training_Score''))"

section \<open>Closed forms and documented tables\<close>

text \<open>
  The derived score of one cell and the enriched form of one row, as the four column
  assignments of \<^verbatim>\<open>add_derived_columns\<close> leave it; \<open>has_risk\<close> tells whether the
  frame has an \<^verbatim>\<open>Attrition_Risk\<close> column.
\<close>

definition score_of :: "(string \<rightharpoonup> real) \<Rightarrow> real \<Rightarrow> cell \<Rightarrow> cell" where
  "score_of m d v =
     (case v of Str s \<Rightarrow> (case m s of Some x \<Rightarrow> Num x | None \<Rightarrow> Num d) | _ \<Rightarrow> Num d)"

definition enrich_row :: "bool \<Rightarrow> row \<Rightarrow> row" where
  "enrich_row has_risk r =
     (fst r, (snd r)
       (''Medical_Score'' := score_of MEDICAL_SCORE 60 (snd r ''Medical_Category''),
        ''Leadership_Score'' := score_of LEADERSHIP_MAP 1 (snd r ''Leadership_Potential''),
        ''Readiness_Score'' := score_of READINESS_SCORE 1 (snd r ''Readiness_Level''),
        ''Attrition_Score'' :=
          (if has_risk then score_of ATTRITION_RISK_MAP 2 (snd r ''Attrition_Risk'') else Num 2)))"

definition derived_names :: "string list" where
  "derived_names = [''Medical_Score'', ''Leadership_Score'', ''Readiness_Score'', ''Attrition_Score'']"

text \<open>The lookup tables as the specification documents them, with their defaults.\<close>

definition documented_medical :: "cell \<Rightarrow> real" where
  "documented_medical v =
     (if v = Str ''A1'' then 100 else if v = Str ''A2'' then 95
      else if v = Str ''B1'' then 88 else if v = Str ''B2'' then 82
      else if v = Str ''C1'' then 75 else if v = Str ''C2'' then 68 else 60)"

definition documented_leadership :: "cell \<Rightarrow> real" where
  "documented_leadership v =
     (if v = Str ''High'' then 3 else if v = Str ''Medium'' then 2
      else if v = Str ''Low'' then 1 else if v = Str ''Yes'' then 3
      else if v = Str ''No'' then 1 else 1)"

definition documented_readiness :: "cell \<Rightarrow> real" where
  "documented_readiness v =
     (if v = Str ''High'' then 3 else if v = Str ''Medium'' then 2
      else if v = Str ''Low'' then 1 else 1)"

definition documented_attrition :: "cell \<Rightarrow> real" where
  "documented_attrition v =
     (if v = Str ''High'' then 3 else if v = Str ''Medium'' then 2
      else if v = Str ''Low'' then 1 else 2)"

section \<open>Example tables\<close>

definition mk_row :: "nat \<Rightarrow> (string \<times> cell) list \<Rightarrow> row" where
  "mk_row i kvs = (i, (\<lambda>c. case map_of kvs c of Some v \<Rightarrow> v | None \<Rightarrow> NaN))"

definition base_columns :: "string list" where
  "base_columns =
     [''Personnel_ID'', ''Name'', ''Rank'', ''Primary_Skill'', ''Years_of_Service'',
      ''Performance_Rating'', ''Training_Score'', ''Medical_Category'',
      ''Leadership_Potential'', ''Readiness_Level'', ''Missions_Completed'']"

definition roster :: frame where
  "roster =
     \<lparr>columns = base_columns,
      rws =
        [mk_row 0 [(''Personnel_ID'', Str ''P1''), (''Name'', Str ''Asha''),
                   (''Primary_Skill'', Str ''Pilot''), (''Years_of_Service'', Num 25),
                   (''Performance_Rating'', Num 1), (''Training_Score'', Num 40),
                   (''Medical_Category'', Str ''A1'')],
         mk_row 1 [(''Personnel_ID'', Str ''P2''), (''Name'', Str ''Binod''),
                   (''Primary_Skill'', Str ''Engineer''), (''Years_of_Service'', Num 5),
                   (''Performance_Rating'', Num 4), (''Training_Score'', Num 80),
                   (''Leadership_Potential'', Str ''Yes'')],
         mk_row 2 [(''Personnel_ID'', Str ''P3''), (''Name'', Str ''Chitra''),
                   (''Primary_Skill'', Str ''Pilot''), (''Years_of_Service'', Num 30),
                   (''Performance_Rating'', Num 4), (''Training_Score'', Num 80),
                   (''Readiness_Level'', Str ''High'')]]\<rparr>"

definition no_parse :: "string \<Rightarrow> real option" where
  "no_parse s = None"

text \<open>Projections of a result, for stating what a call returns on a concrete table.\<close>

definition column_of :: "string \<Rightarrow> error + frame \<Rightarrow> error + cell list" where
  "column_of c res = (case res of Inl e \<Rightarrow> Inl e | Inr f \<Rightarrow> Inr (map (\<lambda>r. snd r c) (rws f)))"

definition labels_of :: "error + frame \<Rightarrow> error + nat list" where
  "labels_of res = (case res of Inl e \<Rightarrow> Inl e | Inr f \<Rightarrow> Inr (map fst (rws f)))"

text \<open>
  The numeric cast of one cell (zero for text that is no number, for a missing value
  and for an absent column), one row as the enrichment and the three casts leave it,
  and the names of the columns that scoring writes; \<open>cols\<close> are the columns of the
  input frame.
\<close>

definition cast_value :: "(string \<Rightarrow> real option) \<Rightarrow> bool \<Rightarrow> cell \<Rightarrow> real" where
  "cast_value parse present v =
     (if present
      then (case v of
              Num x \<Rightarrow> x
            | Str s \<Rightarrow> (case parse s of Some x \<Rightarrow> x | None \<Rightarrow> 0)
            | NaN \<Rightarrow> 0)
      else 0)"

definition cast_cell :: "(string \<Rightarrow> real option) \<Rightarrow> bool \<Rightarrow> cell \<Rightarrow> cell" where
  "cast_cell parse present v = Num (cast_value parse present v)"

definition prepare_row :: "(string \<Rightarrow> real option) \<Rightarrow> string list \<Rightarrow> row \<Rightarrow> row" where
  "prepare_row parse cols r =
     (fst r, (snd (enrich_row (''Attrition_Risk'' \<in> set cols) r))
       (''Performance_Rating'' :=
          cast_cell parse (''Performance_Rating'' \<in> set cols) (snd r ''Performance_Rating''),
        ''Training_Score'' :=
          cast_cell parse (''Training_Score'' \<in> set cols) (snd r ''Training_Score''),
        ''Missions_Completed'' :=
          cast_cell parse (''Missions_Completed'' \<in> set cols) (snd r ''Missions_Completed'')))"

text \<open>
  The candidate rows of a selection: the rows of the table, or those whose primary skill
  is one of the required roles when the selection is restricted to them.
\<close>

definition candidates :: "frame \<Rightarrow> string list option \<Rightarrow> bool \<Rightarrow> row list" where
  "candidates d roles restrict =
     (if restrict \<and> truthy roles
      then filter (\<lambda>r. case snd r ''Primary_Skill'' of
                          Str s \<Rightarrow> s \<in> set (role_list roles) | _ \<Rightarrow> False) (rws d)
      else rws d)"

definition by_overall :: "row \<Rightarrow> row \<Rightarrow> bool" where
  "by_overall x y = keys_le [(''Overall'', False)] (snd x) (snd y)"

definition scored_names :: "string list" where
  "scored_names =
     derived_names @ [''Performance_Rating'', ''Training_Score'', ''Missions_Completed'', ''Overall'']"

definition solo :: frame where
  "solo =
     \<lparr>columns = base_columns,
      rws = [mk_row 0 [(''Personnel_ID'', Str ''P1''), (''Name'', Str ''Asha''),
                       (''Primary_Skill'', Str ''Pilot''), (''Years_of_Service'', Num 25),
                       (''Performance_Rating'', Num 1), (''Training_Score'', Num 40)]]\<rparr>"

text \<open>A column whose cells are text or missing, never a number.\<close>

definition text_column :: "frame \<Rightarrow> string \<Rightarrow> bool" where
  "text_column df c = list_all (\<lambda>v. num_of v = None) (map (\<lambda>r. snd r c) (rws df))"

section \<open>The store model\<close>

text \<open>
  To state that no operation changes the table it is given, data frames are placed in a
  store: a list of frames, a reference being a position in it. \<^verbatim>\<open>df.copy()\<close>
  allocates a new frame, \<^verbatim>\<open>df[c] = series\<close> overwrites the frame at the reference in
  place; every other pandas expression of the source (a mask, a sort, a head, a column
  selection, a concatenation) builds a new frame and is a value. A function takes the
  reference of its argument and the store and returns its result with the new store.
\<close>

type_synonym store = "frame list"

definition copy_st :: "nat \<Rightarrow> store \<Rightarrow> nat \<times> store" where
  "copy_st r s = (length s, s @ [s ! r])"

definition modify_st :: "nat \<Rightarrow> (frame \<Rightarrow> frame) \<Rightarrow> store \<Rightarrow> store" where
  "modify_st r f s = s[r := f (s ! r)]"

definition setitem_st :: "nat \<Rightarrow> string \<Rightarrow> cell list \<Rightarrow> store \<Rightarrow> store" where
  "setitem_st r c vs s = modify_st r (\<lambda>f. setcol f c vs) s"

definition st_bind ::
  "(error + 'a) \<times> store \<Rightarrow> ('a \<Rightarrow> store \<Rightarrow> (error + 'b) \<times> store) \<Rightarrow> (error + 'b) \<times> store" where
  "st_bind m k = (case m of (Inl e, s) \<Rightarrow> (Inl e, s) | (Inr x, s) \<Rightarrow> k x s)"

text \<open>\<^verbatim>\<open>add_derived_columns\<close>, statement by statement: the copy, then four column writes
  to the copy, whose reference is returned.\<close>

definition add_derived_columns_st :: "nat \<Rightarrow> store \<Rightarrow> (error + nat) \<times> store" where
  "add_derived_columns_st r s0 =
     (let (d, s1) = copy_st r s0 in
      st_bind (getcol (s1 ! d) ''Medical_Category'', s1) (\<lambda>mc s1.
      let s2 = setitem_st d ''Medical_Score'' (fillna 60 (series_map MEDICAL_SCORE mc)) s1 in
      st_bind (getcol (s2 ! d) ''Leadership_Potential'', s2) (\<lambda>lp s2.
      let s3 = setitem_st d ''Leadership_Score'' (fillna 1 (series_map LEADERSHIP_MAP lp)) s2 in
      st_bind (getcol (s3 ! d) ''Readiness_Level'', s3) (\<lambda>rl s3.
      let s4 = setitem_st d ''Readiness_Score'' (fillna 1 (series_map READINESS_SCORE rl)) s3 in
      if ''Attrition_Risk'' \<in> set (columns (s4 ! d))
      then st_bind (getcol (s4 ! d) ''Attrition_Risk'', s4) (\<lambda>ar s4.
             (Inr d, setitem_st d ''Attrition_Score''
                       (fillna 2 (series_map ATTRITION_RISK_MAP ar)) s4))
      else (Inr d, setitem_st d ''Attrition_Score''
                     (replicate (length (rws (s4 ! d))) (Num 2)) s4)))))"

text \<open>
  \<^verbatim>\<open>who_is_going_to_leave\<close>: the heuristic branch writes the tier column into the
  enriched copy before sorting it.
\<close>

definition who_is_going_to_leave_st :: "nat \<Rightarrow> int \<Rightarrow> store \<Rightarrow> (error + frame) \<times> store" where
  "who_is_going_to_leave_st r top_n s0 =
     st_bind (add_derived_columns_st r s0) (\<lambda>d s1.
     if ''Attrition_Risk'' \<in> set (columns (s1 ! d))
     then
       (err_bind (sort_values (s1 ! d) [(''Attrition_Score'', False), (''Years_of_Service'', True)]) (\<lambda>out.
        err_bind (select_cols out [''Personnel_ID'', ''Name'', ''Rank'', ''Years_of_Service'',
                                   ''Attrition_Risk'', ''Performance_Rating'']) (\<lambda>sel.
        Inr (head top_n sel))), s1)
     else
       st_bind (getcol (s1 ! d) ''Years_of_Service'', s1) (\<lambda>yos s1.
       st_bind (compare_series (\<lambda>x. x > 20) (fillna 0 yos), s1) (\<lambda>b1 s1.
       st_bind (getcol (s1 ! d) ''Performance_Rating'', s1) (\<lambda>pr s1.
       st_bind (compare_series (\<lambda>x. x \<le> 2) (fillna 3 pr), s1) (\<lambda>b2 s1.
       st_bind (getcol (s1 ! d) ''Training_Score'', s1) (\<lambda>ts s1.
       st_bind (compare_series (\<lambda>x. x < 50) (fillna 60 ts), s1) (\<lambda>b3 s1.
       let s2 = setitem_st d ''Heuristic_Attrition''
                  (map (\<lambda>(a, b, c). heuristic_label a b c) (zip b1 (zip b2 b3))) s1 in
       (err_bind (sort_values (s2 ! d) [(''Heuristic_Attrition'', False), (''Years_of_Service'', True)]) (\<lambda>out.
        err_bind (select_cols out [''Personnel_ID'', ''Name'', ''Rank'', ''Years_of_Service'',
                                   ''Heuristic_Attrition'', ''Performance_Rating'']) (\<lambda>sel.
        Inr (head top_n sel))), s2))))))))"

text \<open>
  \<^verbatim>\<open>select_best_team\<close>: a second copy of the enriched copy, the numeric casts, the
  guarded derivations and the \<^verbatim>\<open>Overall\<close> column are written to that copy; the
  selection that follows only builds new frames.
\<close>

definition select_best_team_st ::
  "(string \<Rightarrow> real option) \<Rightarrow> nat \<Rightarrow> int \<Rightarrow> string list option \<Rightarrow> bool \<Rightarrow> store
     \<Rightarrow> (error + frame) \<times> store" where
  "select_best_team_st parse r headcount required_roles restrict_to_roles s0 =
     st_bind (add_derived_columns_st r s0) (\<lambda>d0 s1.
     let (d, s2) = copy_st d0 s1;
         s3 = fold (\<lambda>col. modify_st d (numeric_cast parse col))
                [''Performance_Rating'', ''Training_Score'', ''Missions_Completed''] s2;
         s4 = modify_st d (derive_if_absent ''Medical_Score'' ''Medical_Category'' MEDICAL_SCORE) s3;
         s5 = modify_st d (derive_if_absent ''Readiness_Score'' ''Readiness_Level'' READINESS_SCORE) s4;
         s6 = modify_st d (derive_if_absent ''Leadership_Score'' ''Leadership_Potential'' LEADERSHIP_MAP) s5 in
     st_bind (getcol (s6 ! d) ''Missions_Completed'', s6) (\<lambda>missions s6.
     let denom_missions = py_max (series_max missions) 1 in
     st_bind (getcol (s6 ! d) ''Performance_Rating'', s6) (\<lambda>perf s6.
     let denom_perf = perf_denominator (series_max perf);
         s7 = setitem_st d ''Overall''
                (map (\<lambda>r. overall denom_missions denom_perf (snd r)) (rws (s6 ! d))) s6 in
     (choose_team (s7 ! d) headcount required_roles restrict_to_roles, s7))))"

text \<open>
  The remaining reports and the scenario analysers call \<^verbatim>\<open>add_derived_columns\<close> once
  and write nothing afterwards: their effect on the store is that of this call, their
  value is the value of the function on the frame at the reference.
\<close>

definition reads_enriched :: "(frame \<Rightarrow> error + 'a) \<Rightarrow> nat \<Rightarrow> store \<Rightarrow> (error + 'a) \<times> store" where
  "reads_enriched f r s = (f (s ! r), snd (add_derived_columns_st r s))"

definition medical_scores_st :: "nat \<Rightarrow> store \<Rightarrow> (error + frame) \<times> store" where
  "medical_scores_st = reads_enriched medical_scores"

definition who_needs_training_st :: "nat \<Rightarrow> int \<Rightarrow> store \<Rightarrow> (error + frame) \<times> store" where
  "who_needs_training_st r thresh = reads_enriched (\<lambda>df. who_needs_training df thresh) r"

definition leadership_list_st :: "nat \<Rightarrow> store \<Rightarrow> (error + frame) \<times> store" where
  "leadership_list_st = reads_enriched leadership_list"

text \<open>\<^verbatim>\<open>skill_grouping\<close> works on the table itself and only reads it.\<close>

definition skill_grouping_st ::
  "nat \<Rightarrow> store \<Rightarrow> (error + (cell \<times> record_list) list) \<times> store" where
  "skill_grouping_st r s = (skill_grouping (s ! r), s)"

text \<open>
  The router: the leadership and team branches read the skills of the table before
  they call a report, so a failure there leaves the store as it was.
\<close>

definition what_if_simulation_st ::
  "(string \<Rightarrow> real option) \<Rightarrow> nat \<Rightarrow> string \<Rightarrow> store \<Rightarrow> (error + result) \<times> store" where
  "what_if_simulation_st parse r text s =
     (let text_low = lower text in
      case route text_low of
        Leadership \<Rightarrow>
          st_bind (err_bind (getcol (s ! r) ''Primary_Skill'') (\<lambda>ps.
                     first_skill text_low (unique (dropna ps))), s) (\<lambda>skill s.
          reads_enriched (\<lambda>df. what_if_simulation parse df text) r s)
      | Team \<Rightarrow>
          (let n = (case search_digits text_low of Some k \<Rightarrow> k | None \<Rightarrow> 10) in
           st_bind (err_bind (getcol (s ! r) ''Primary_Skill'') (\<lambda>ps.
                      mentioned_skills text_low (unique (dropna ps))), s) (\<lambda>roles s.
           st_bind (select_best_team_st parse r (int n)
                      (if roles = [] then None else Some roles) False s) (\<lambda>team s.
           (Inr \<lparr>action = ''select_team'', recommendations = [],
                 data = to_records team, query = text\<rparr>, s))))
      | Default \<Rightarrow>
          st_bind (who_is_going_to_leave_st r 50 s) (\<lambda>out s.
          (Inr \<lparr>action = ''show_attrition'', recommendations = [],
                data = to_records out, query = text\<rparr>, s))
      | _ \<Rightarrow> reads_enriched (\<lambda>df. what_if_simulation parse df text) r s)"

definition shared :: store where
  "shared = [roster, solo]"

text \<open>
  \<open>untouched s s'\<close>: the store \<open>s'\<close> holds every frame of \<open>s\<close> under the same reference,
  unchanged; what \<open>s'\<close> has beyond them are frames allocated since.
\<close>

definition untouched :: "store \<Rightarrow> store \<Rightarrow> bool" where
  "untouched s s' = (take (length s) s' = s)"


text \<open>A table with categorical performance ratings and no attrition-risk column.\<close>

definition text_ratings :: frame where
  "text_ratings =
     \<lparr>columns = base_columns,
      rws =
        [mk_row 0 [(''Personnel_ID'', Str ''P1''), (''Name'', Str ''Asha''),
                   (''Primary_Skill'', Str ''Pilot''), (''Years_of_Service'', Num 25),
                   (''Performance_Rating'', Str ''Good''), (''Training_Score'', Num 40)],
         mk_row 1 [(''Personnel_ID'', Str ''P2''), (''Name'', Str ''Binod''),
                   (''Primary_Skill'', Str ''Engineer''), (''Years_of_Service'', Num 5),
                   (''Performance_Rating'', Str ''Excellent''), (''Training_Score'', Num 80)]]\<rparr>"

section \<open>Properties\<close>

subsection \<open>Basic facts about frames\<close>

lemma err_bind_Inr [simp]: "err_bind (Inr x) k = k x"
  by (simp add: err_bind_def)

lemma err_bind_Inl [simp]: "err_bind (Inl e) k = Inl e"
  by (simp add: err_bind_def)

lemma getcol_present:
  "c \<in> set (columns df) \<Longrightarrow> getcol df c = Inr (map (\<lambda>r. snd r c) (rws df))"
  by (simp add: getcol_def)

lemma columns_setcol:
  "columns (setcol df c vs) = (if c \<in> set (columns df) then columns df else columns df @ [c])"
  by (simp add: setcol_def)

lemma mem_columns_setcol: "c \<in> set (columns df) \<Longrightarrow> c \<in> set (columns (setcol df a vs))"
  by (simp add: columns_setcol)

lemma rws_setcol_map:
  "rws (setcol df c (map f (rws df))) = map (\<lambda>r. (fst r, (snd r)(c := f r))) (rws df)"
  by (simp add: setcol_def zip_map2 zip_same_conv_map)

lemma setcol_append:
  assumes "a \<notin> set bs" "columns df = cs @ filter (\<lambda>x. x \<notin> set cs) bs"
  shows "columns (setcol df a vs) = cs @ filter (\<lambda>x. x \<notin> set cs) (bs @ [a])"
  using assms by (auto simp: columns_setcol)

lemma fillna_series_map: "fillna d (series_map m vs) = map (score_of m d) vs"
  by (induction vs)
     (auto simp: fillna_def series_map_def score_of_def split: cell.splits option.splits)

subsection \<open>The enriched frame\<close>

lemma add_derived_columns_closed:
  assumes mc: "''Medical_Category'' \<in> set (columns df)"
    and lp: "''Leadership_Potential'' \<in> set (columns df)"
    and rl: "''Readiness_Level'' \<in> set (columns df)"
  shows "add_derived_columns df =
     Inr \<lparr>columns = columns df @ filter (\<lambda>c. c \<notin> set (columns df)) derived_names,
          rws = map (enrich_row (''Attrition_Risk'' \<in> set (columns df))) (rws df)\<rparr>"
proof -
  define f1 where "f1 = (\<lambda>r::row. score_of MEDICAL_SCORE 60 (snd r ''Medical_Category''))"
  define df1 where "df1 = setcol df ''Medical_Score'' (map f1 (rws df))"
  define f2 where "f2 = (\<lambda>r::row. score_of LEADERSHIP_MAP 1 (snd r ''Leadership_Potential''))"
  define df2 where "df2 = setcol df1 ''Leadership_Score'' (map f2 (rws df1))"
  define f3 where "f3 = (\<lambda>r::row. score_of READINESS_SCORE 1 (snd r ''Readiness_Level''))"
  define df3 where "df3 = setcol df2 ''Readiness_Score'' (map f3 (rws df2))"
  define f4 where "f4 = (\<lambda>r::row. if ''Attrition_Risk'' \<in> set (columns df)
                          then score_of ATTRITION_RISK_MAP 2 (snd r ''Attrition_Risk'') else Num 2)"
  define df4 where "df4 = setcol df3 ''Attrition_Score'' (map f4 (rws df3))"
  have c0: "columns df = columns df @ filter (\<lambda>x. x \<notin> set (columns df)) []"
    by simp
  have c1: "columns df1 = columns df @ filter (\<lambda>x. x \<notin> set (columns df)) [''Medical_Score'']"
    unfolding df1_def using setcol_append [OF _ c0, of "''Medical_Score''"] by simp
  have c2: "columns df2 = columns df @ filter (\<lambda>x. x \<notin> set (columns df))
                            [''Medical_Score'', ''Leadership_Score'']"
    unfolding df2_def using setcol_append [OF _ c1, of "''Leadership_Score''"] by simp
  have c3: "columns df3 = columns df @ filter (\<lambda>x. x \<notin> set (columns df))
                            [''Medical_Score'', ''Leadership_Score'', ''Readiness_Score'']"
    unfolding df3_def using setcol_append [OF _ c2, of "''Readiness_Score''"] by simp
  have c4: "columns df4 = columns df @ filter (\<lambda>x. x \<notin> set (columns df)) derived_names"
    unfolding df4_def derived_names_def
    using setcol_append [OF _ c3, of "''Attrition_Score''"] by simp
  have ar: "''Attrition_Risk'' \<in> set (columns df3) \<longleftrightarrow> ''Attrition_Risk'' \<in> set (columns df)"
    unfolding c3 by simp
  have r1: "rws df1 = map (\<lambda>r. (fst r, (snd r)(''Medical_Score'' := f1 r))) (rws df)"
    unfolding df1_def by (rule rws_setcol_map)
  have r2: "rws df2 = map (\<lambda>r. (fst r, (snd r)(''Leadership_Score'' := f2 r))) (rws df1)"
    unfolding df2_def by (rule rws_setcol_map)
  have r3: "rws df3 = map (\<lambda>r. (fst r, (snd r)(''Readiness_Score'' := f3 r))) (rws df2)"
    unfolding df3_def by (rule rws_setcol_map)
  have r4: "rws df4 = map (\<lambda>r. (fst r, (snd r)(''Attrition_Score'' := f4 r))) (rws df3)"
    unfolding df4_def by (rule rws_setcol_map)
  have rows: "rws df4 = map (enrich_row (''Attrition_Risk'' \<in> set (columns df))) (rws df)"
    unfolding r4 r3 r2 r1 by (simp add: enrich_row_def f1_def f2_def f3_def f4_def o_def)
  have g1: "getcol df ''Medical_Category'' = Inr (map (\<lambda>r. snd r ''Medical_Category'') (rws df))"
    using mc by (rule getcol_present)
  have g2: "getcol df1 ''Leadership_Potential''
              = Inr (map (\<lambda>r. snd r ''Leadership_Potential'') (rws df1))"
    by (rule getcol_present) (simp add: df1_def mem_columns_setcol lp)
  have g3: "getcol df2 ''Readiness_Level'' = Inr (map (\<lambda>r. snd r ''Readiness_Level'') (rws df2))"
    by (rule getcol_present) (simp add: df2_def df1_def mem_columns_setcol rl)
  have s1: "setcol df ''Medical_Score''
              (fillna 60 (series_map MEDICAL_SCORE (map (\<lambda>r. snd r ''Medical_Category'') (rws df))))
            = df1"
    by (simp add: fillna_series_map df1_def f1_def o_def)
  have s2: "setcol df1 ''Leadership_Score''
              (fillna 1 (series_map LEADERSHIP_MAP (map (\<lambda>r. snd r ''Leadership_Potential'') (rws df1))))
            = df2"
    by (simp add: fillna_series_map df2_def f2_def o_def)
  have s3: "setcol df2 ''Readiness_Score''
              (fillna 1 (series_map READINESS_SCORE (map (\<lambda>r. snd r ''Readiness_Level'') (rws df2))))
            = df3"
    by (simp add: fillna_series_map df3_def f3_def o_def)
  have s4: "(if ''Attrition_Risk'' \<in> set (columns df3)
     then err_bind (getcol df3 ''Attrition_Risk'') (\<lambda>ar.
            Inr (setcol df3 ''Attrition_Score'' (fillna 2 (series_map ATTRITION_RISK_MAP ar))))
     else Inr (setcol df3 ''Attrition_Score'' (replicate (length (rws df3)) (Num 2)))) = Inr df4"
  proof (cases "''Attrition_Risk'' \<in> set (columns df)")
    case True
    then show ?thesis
      by (simp add: ar getcol_present fillna_series_map df4_def f4_def o_def)
  next
    case False
    then show ?thesis
      by (simp add: ar df4_def f4_def map_replicate_const)
  qed
  have "add_derived_columns df = Inr df4"
    unfolding add_derived_columns_def g1 err_bind_Inr Let_def s1 g2 s2 g3 s3 s4 ..
  moreover have "df4 =
      \<lparr>columns = columns df @ filter (\<lambda>c. c \<notin> set (columns df)) derived_names,
       rws = map (enrich_row (''Attrition_Risk'' \<in> set (columns df))) (rws df)\<rparr>"
    using c4 rows by simp
  ultimately show ?thesis by simp
qed

subsection \<open>Derived scores (C5)\<close>

lemma score_medical: "score_of MEDICAL_SCORE 60 v = Num (documented_medical v)"
  by (cases v) (simp_all add: score_of_def MEDICAL_SCORE_def documented_medical_def)

lemma score_leadership: "score_of LEADERSHIP_MAP 1 v = Num (documented_leadership v)"
  by (cases v) (simp_all add: score_of_def LEADERSHIP_MAP_def documented_leadership_def)

lemma score_readiness: "score_of READINESS_SCORE 1 v = Num (documented_readiness v)"
  by (cases v) (simp_all add: score_of_def READINESS_SCORE_def documented_readiness_def)

lemma score_attrition: "score_of ATTRITION_RISK_MAP 2 v = Num (documented_attrition v)"
  by (cases v) (simp_all add: score_of_def ATTRITION_RISK_MAP_def documented_attrition_def)

lemma documented_ranges:
  "60 \<le> documented_medical v \<and> documented_medical v \<le> 100"
  "1 \<le> documented_leadership v \<and> documented_leadership v \<le> 3"
  "1 \<le> documented_readiness v \<and> documented_readiness v \<le> 3"
  "1 \<le> documented_attrition v \<and> documented_attrition v \<le> 3"
  by (simp_all add: documented_medical_def documented_leadership_def documented_readiness_def
        documented_attrition_def)

lemma enrich_row_other:
  "c \<notin> set derived_names \<Longrightarrow> snd (enrich_row h r) c = snd r c"
  by (simp add: enrich_row_def derived_names_def)

lemma enrich_row_scores:
  "snd (enrich_row h r) ''Medical_Score'' = Num (documented_medical (snd r ''Medical_Category''))"
  "snd (enrich_row h r) ''Leadership_Score'' = Num (documented_leadership (snd r ''Leadership_Potential''))"
  "snd (enrich_row h r) ''Readiness_Score'' = Num (documented_readiness (snd r ''Readiness_Level''))"
  "snd (enrich_row h r) ''Attrition_Score'' = Num (if h then documented_attrition (snd r ''Attrition_Risk'') else 2)"
  by (simp_all add: enrich_row_def score_medical score_leadership score_readiness score_attrition)

lemma fst_enrich_row [simp]: "fst (enrich_row h r) = fst r"
  by (simp add: enrich_row_def)

text \<open>
  Claim C5. For every table that has the three categorical columns of the data model,
  \<^verbatim>\<open>add_derived_columns\<close> returns a frame and raises nothing. The frame keeps every
  original column name in its place and appends the derived names it did not have; it
  keeps every row, its label and its value in every column other than the four derived
  ones. Each row's four derived scores are the documented tables with their defaults
  (60, 1, 1, 2, the last one for every row when there is no \<^verbatim>\<open>Attrition_Risk\<close>
  column), so a missing or unknown category gives the default; the scores lie in
  60..100, 1..3, 1..3 and 1..3.
\<close>

theorem enrich_derived_scores:
  assumes "set [''Medical_Category'', ''Leadership_Potential'', ''Readiness_Level''] \<subseteq> set (columns df)"
  shows "\<exists>d. add_derived_columns df = Inr d
     \<and> columns d = columns df @ filter (\<lambda>c. c \<notin> set (columns df))
                       [''Medical_Score'', ''Leadership_Score'', ''Readiness_Score'', ''Attrition_Score'']
     \<and> map fst (rws d) = map fst (rws df)
     \<and> (\<forall>k < length (rws df). \<forall>c.
           c \<notin> {''Medical_Score'', ''Leadership_Score'', ''Readiness_Score'', ''Attrition_Score''}
           \<longrightarrow> snd (rws d ! k) c = snd (rws df ! k) c)
     \<and> (\<forall>k < length (rws df).
           snd (rws d ! k) ''Medical_Score''
             = Num (documented_medical (snd (rws df ! k) ''Medical_Category''))
         \<and> snd (rws d ! k) ''Leadership_Score''
             = Num (documented_leadership (snd (rws df ! k) ''Leadership_Potential''))
         \<and> snd (rws d ! k) ''Readiness_Score''
             = Num (documented_readiness (snd (rws df ! k) ''Readiness_Level''))
         \<and> snd (rws d ! k) ''Attrition_Score''
             = Num (if ''Attrition_Risk'' \<in> set (columns df)
                    then documented_attrition (snd (rws df ! k) ''Attrition_Risk'') else 2))
     \<and> (\<forall>k < length (rws df). \<exists>m l r a.
           snd (rws d ! k) ''Medical_Score'' = Num m \<and> 60 \<le> m \<and> m \<le> 100
         \<and> snd (rws d ! k) ''Leadership_Score'' = Num l \<and> 1 \<le> l \<and> l \<le> 3
         \<and> snd (rws d ! k) ''Readiness_Score'' = Num r \<and> 1 \<le> r \<and> r \<le> 3
         \<and> snd (rws d ! k) ''Attrition_Score'' = Num a \<and> 1 \<le> a \<and> a \<le> 3)"
proof -
  define h where "h = (''Attrition_Risk'' \<in> set (columns df))"
  define d where "d = \<lparr>columns = columns df @ filter (\<lambda>c. c \<notin> set (columns df)) derived_names,
                       rws = map (enrich_row h) (rws df)\<rparr>"
  have run: "add_derived_columns df = Inr d"
    unfolding d_def h_def using assms by (intro add_derived_columns_closed) simp_all
  have cols: "columns d = columns df @ filter (\<lambda>c. c \<notin> set (columns df))
                       [''Medical_Score'', ''Leadership_Score'', ''Readiness_Score'', ''Attrition_Score'']"
    by (simp add: d_def derived_names_def)
  have labels: "map fst (rws d) = map fst (rws df)"
    by (simp add: d_def o_def)
  have nth: "rws d ! k = enrich_row h (rws df ! k)" if "k < length (rws df)" for k
    using that by (simp add: d_def)
  have other: "\<forall>k < length (rws df). \<forall>c.
           c \<notin> {''Medical_Score'', ''Leadership_Score'', ''Readiness_Score'', ''Attrition_Score''}
           \<longrightarrow> snd (rws d ! k) c = snd (rws df ! k) c"
    using enrich_row_other [of _ h] by (simp add: nth derived_names_def)
  have scores: "\<forall>k < length (rws df).
           snd (rws d ! k) ''Medical_Score''
             = Num (documented_medical (snd (rws df ! k) ''Medical_Category''))
         \<and> snd (rws d ! k) ''Leadership_Score''
             = Num (documented_leadership (snd (rws df ! k) ''Leadership_Potential''))
         \<and> snd (rws d ! k) ''Readiness_Score''
             = Num (documented_readiness (snd (rws df ! k) ''Readiness_Level''))
         \<and> snd (rws d ! k) ''Attrition_Score''
             = Num (if ''Attrition_Risk'' \<in> set (columns df)
                    then documented_attrition (snd (rws df ! k) ''Attrition_Risk'') else 2)"
    by (simp add: nth enrich_row_scores h_def)
  have ranges: "\<forall>k < length (rws df). \<exists>m l r a.
           snd (rws d ! k) ''Medical_Score'' = Num m \<and> 60 \<le> m \<and> m \<le> 100
         \<and> snd (rws d ! k) ''Leadership_Score'' = Num l \<and> 1 \<le> l \<and> l \<le> 3
         \<and> snd (rws d ! k) ''Readiness_Score'' = Num r \<and> 1 \<le> r \<and> r \<le> 3
         \<and> snd (rws d ! k) ''Attrition_Score'' = Num a \<and> 1 \<le> a \<and> a \<le> 3"
  proof (intro allI impI)
    fix k assume k: "k < length (rws df)"
    have a: "1 \<le> (if h then documented_attrition (snd (rws df ! k) ''Attrition_Risk'') else 2)
           \<and> (if h then documented_attrition (snd (rws df ! k) ''Attrition_Risk'') else 2) \<le> 3"
      using documented_ranges(4) by simp
    show "\<exists>m l r a.
           snd (rws d ! k) ''Medical_Score'' = Num m \<and> 60 \<le> m \<and> m \<le> 100
         \<and> snd (rws d ! k) ''Leadership_Score'' = Num l \<and> 1 \<le> l \<and> l \<le> 3
         \<and> snd (rws d ! k) ''Readiness_Score'' = Num r \<and> 1 \<le> r \<and> r \<le> 3
         \<and> snd (rws d ! k) ''Attrition_Score'' = Num a \<and> 1 \<le> a \<and> a \<le> 3"
      unfolding nth [OF k] enrich_row_scores
      using documented_ranges(1-3) a by blast
  qed
  from run cols labels other scores ranges show ?thesis by blast
qed

theorem enrich_derived_scores_witness:
  "set [''Medical_Category'', ''Leadership_Potential'', ''Readiness_Level''] \<subseteq> set (columns roster)
   \<and> (\<exists>d. add_derived_columns roster = Inr d
       \<and> columns d = base_columns @ [''Medical_Score'', ''Leadership_Score'', ''Readiness_Score'', ''Attrition_Score'']
       \<and> snd (rws d ! 0) ''Medical_Score'' = Num 100
       \<and> snd (rws d ! 1) ''Medical_Score'' = Num 60
       \<and> snd (rws d ! 1) ''Leadership_Score'' = Num 3
       \<and> snd (rws d ! 2) ''Readiness_Score'' = Num 3
       \<and> snd (rws d ! 2) ''Attrition_Score'' = Num 2)"
proof -
  have h: "set [''Medical_Category'', ''Leadership_Potential'', ''Readiness_Level''] \<subseteq> set (columns roster)"
    by (simp add: roster_def base_columns_def)
  from enrich_derived_scores [OF h] obtain d where d: "add_derived_columns roster = Inr d"
    and c: "columns d = columns roster @ filter (\<lambda>c. c \<notin> set (columns roster))
                       [''Medical_Score'', ''Leadership_Score'', ''Readiness_Score'', ''Attrition_Score'']"
    and s: "\<forall>k < length (rws roster).
           snd (rws d ! k) ''Medical_Score''
             = Num (documented_medical (snd (rws roster ! k) ''Medical_Category''))
         \<and> snd (rws d ! k) ''Leadership_Score''
             = Num (documented_leadership (snd (rws roster ! k) ''Leadership_Potential''))
         \<and> snd (rws d ! k) ''Readiness_Score''
             = Num (documented_readiness (snd (rws roster ! k) ''Readiness_Level''))
         \<and> snd (rws d ! k) ''Attrition_Score''
             = Num (if ''Attrition_Risk'' \<in> set (columns roster)
                    then documented_attrition (snd (rws roster ! k) ''Attrition_Risk'') else 2)"
    by blast
  have c': "columns d = base_columns @ [''Medical_Score'', ''Leadership_Score'', ''Readiness_Score'', ''Attrition_Score'']"
    unfolding c by (simp add: roster_def base_columns_def)
  have len: "length (rws roster) = 3" by (simp add: roster_def)
  have s0: "snd (rws d ! 0) ''Medical_Score'' = Num 100"
    using s [rule_format, of 0] by (simp add: len) (simp add: roster_def mk_row_def documented_medical_def)
  have s1: "snd (rws d ! 1) ''Medical_Score'' = Num 60" "snd (rws d ! 1) ''Leadership_Score'' = Num 3"
    using s [rule_format, of 1] by (simp_all add: len) (simp_all add: roster_def mk_row_def documented_medical_def documented_leadership_def)
  have s2: "snd (rws d ! 2) ''Readiness_Score'' = Num 3" "snd (rws d ! 2) ''Attrition_Score'' = Num 2"
    using s [rule_format, of 2] by (simp_all add: len) (simp_all add: roster_def base_columns_def mk_row_def documented_readiness_def)
  from h d c' s0 s1 s2 show ?thesis by blast
qed

subsection \<open>The scored frame\<close>

lemma numeric_cast_setcol:
  "numeric_cast parse col d
     = setcol d col (map (\<lambda>r. cast_cell parse (col \<in> set (columns d)) (snd r col)) (rws d))"
  by (auto simp: numeric_cast_def cast_cell_def cast_value_def fill_float_def to_numeric_def map_replicate_const
           intro!: arg_cong [where f = "setcol d col"] split: cell.splits option.splits)

lemma derive_if_absent_present:
  "score \<in> set (columns d) \<Longrightarrow> derive_if_absent score source table d = d"
  by (simp add: derive_if_absent_def)

lemma score_table_closed:
  assumes mc: "''Medical_Category'' \<in> set (columns df)"
    and lp: "''Leadership_Potential'' \<in> set (columns df)"
    and rl: "''Readiness_Level'' \<in> set (columns df)"
  shows "score_table parse df =
     Inr \<lparr>columns = columns df @ filter (\<lambda>c. c \<notin> set (columns df)) scored_names,
          rws = map (\<lambda>r. (fst r, (snd r)(''Overall'' :=
                     overall
                       (py_max (series_max (map (\<lambda>r. snd r ''Missions_Completed'')
                                  (map (prepare_row parse (columns df)) (rws df)))) 1)
                       (perf_denominator (series_max (map (\<lambda>r. snd r ''Performance_Rating'')
                                  (map (prepare_row parse (columns df)) (rws df)))))
                       (snd r))))
                (map (prepare_row parse (columns df)) (rws df))\<rparr>"
proof -
  let ?cs = "columns df"
  define d0 where "d0 = \<lparr>columns = ?cs @ filter (\<lambda>c. c \<notin> set ?cs) derived_names,
                         rws = map (enrich_row (''Attrition_Risk'' \<in> set ?cs)) (rws df)\<rparr>"
  have e: "add_derived_columns df = Inr d0"
    unfolding d0_def using mc lp rl by (rule add_derived_columns_closed)
  define g1 where "g1 = (\<lambda>r::row. cast_cell parse (''Performance_Rating'' \<in> set ?cs) (snd r ''Performance_Rating''))"
  define g2 where "g2 = (\<lambda>r::row. cast_cell parse (''Training_Score'' \<in> set ?cs) (snd r ''Training_Score''))"
  define g3 where "g3 = (\<lambda>r::row. cast_cell parse (''Missions_Completed'' \<in> set ?cs) (snd r ''Missions_Completed''))"
  define d1 where "d1 = setcol d0 ''Performance_Rating'' (map g1 (rws d0))"
  define d2 where "d2 = setcol d1 ''Training_Score'' (map g2 (rws d1))"
  define d3 where "d3 = setcol d2 ''Missions_Completed'' (map g3 (rws d2))"
  have c0: "columns d0 = ?cs @ filter (\<lambda>x. x \<notin> set ?cs) derived_names"
    by (simp add: d0_def)
  have c1: "columns d1 = ?cs @ filter (\<lambda>x. x \<notin> set ?cs) (derived_names @ [''Performance_Rating''])"
    unfolding d1_def by (rule setcol_append [OF _ c0]) (simp add: derived_names_def)
  have c2: "columns d2 = ?cs @ filter (\<lambda>x. x \<notin> set ?cs)
              ((derived_names @ [''Performance_Rating'']) @ [''Training_Score''])"
    unfolding d2_def by (rule setcol_append [OF _ c1]) (simp add: derived_names_def)
  have c3: "columns d3 = ?cs @ filter (\<lambda>x. x \<notin> set ?cs)
              (((derived_names @ [''Performance_Rating'']) @ [''Training_Score'']) @ [''Missions_Completed''])"
    unfolding d3_def by (rule setcol_append [OF _ c2]) (simp add: derived_names_def)
  have m0: "''Performance_Rating'' \<in> set (columns d0) \<longleftrightarrow> ''Performance_Rating'' \<in> set ?cs"
    unfolding c0 by (simp add: derived_names_def)
  have m1: "''Training_Score'' \<in> set (columns d1) \<longleftrightarrow> ''Training_Score'' \<in> set ?cs"
    unfolding c1 by (simp add: derived_names_def)
  have m2: "''Missions_Completed'' \<in> set (columns d2) \<longleftrightarrow> ''Missions_Completed'' \<in> set ?cs"
    unfolding c2 by (simp add: derived_names_def)
  have n1: "numeric_cast parse ''Performance_Rating'' d0 = d1"
    unfolding numeric_cast_setcol m0 d1_def g1_def ..
  have n2: "numeric_cast parse ''Training_Score'' d1 = d2"
    unfolding numeric_cast_setcol m1 d2_def g2_def ..
  have n3: "numeric_cast parse ''Missions_Completed'' d2 = d3"
    unfolding numeric_cast_setcol m2 d3_def g3_def ..
  have f: "fold (numeric_cast parse) [''Performance_Rating'', ''Training_Score'', ''Missions_Completed''] d0 = d3"
    by (simp add: n1 n2 n3)
  have r1: "rws d1 = map (\<lambda>r. (fst r, (snd r)(''Performance_Rating'' := g1 r))) (rws d0)"
    unfolding d1_def by (rule rws_setcol_map)
  have r2: "rws d2 = map (\<lambda>r. (fst r, (snd r)(''Training_Score'' := g2 r))) (rws d1)"
    unfolding d2_def by (rule rws_setcol_map)
  have r3: "rws d3 = map (\<lambda>r. (fst r, (snd r)(''Missions_Completed'' := g3 r))) (rws d2)"
    unfolding d3_def by (rule rws_setcol_map)
  have rows: "rws d3 = map (prepare_row parse ?cs) (rws df)"
    unfolding r3 r2 r1
    by (simp add: d0_def o_def prepare_row_def g1_def g2_def g3_def enrich_row_def)
  have k1: "derive_if_absent ''Medical_Score'' ''Medical_Category'' MEDICAL_SCORE d3 = d3"
    by (rule derive_if_absent_present) (auto simp: c3 derived_names_def)
  have k2: "derive_if_absent ''Readiness_Score'' ''Readiness_Level'' READINESS_SCORE d3 = d3"
    by (rule derive_if_absent_present) (auto simp: c3 derived_names_def)
  have k3: "derive_if_absent ''Leadership_Score'' ''Leadership_Potential'' LEADERSHIP_MAP d3 = d3"
    by (rule derive_if_absent_present) (auto simp: c3 derived_names_def)
  have q1: "getcol d3 ''Missions_Completed'' = Inr (map (\<lambda>r. snd r ''Missions_Completed'') (rws d3))"
    by (rule getcol_present) (auto simp: c3)
  have q2: "getcol d3 ''Performance_Rating'' = Inr (map (\<lambda>r. snd r ''Performance_Rating'') (rws d3))"
    by (rule getcol_present) (auto simp: c3)
  define dm where "dm = py_max (series_max (map (\<lambda>r. snd r ''Missions_Completed'') (rws d3))) 1"
  define dp where "dp = perf_denominator (series_max (map (\<lambda>r. snd r ''Performance_Rating'') (rws d3)))"
  define d4 where "d4 = setcol d3 ''Overall'' (map (\<lambda>r. overall dm dp (snd r)) (rws d3))"
  have run: "score_table parse df = Inr d4"
    unfolding score_table_def e err_bind_Inr f Let_def k1 k2 k3 q1 q2 d4_def dm_def dp_def ..
  have c4: "columns d4 = ?cs @ filter (\<lambda>x. x \<notin> set ?cs) scored_names"
    unfolding d4_def scored_names_def
    using setcol_append [OF _ c3, of "''Overall''"] by (simp add: derived_names_def)
  have r4: "rws d4 = map (\<lambda>r. (fst r, (snd r)(''Overall'' := overall dm dp (snd r)))) (rws d3)"
    unfolding d4_def by (rule rws_setcol_map)
  have "d4 = \<lparr>columns = ?cs @ filter (\<lambda>c. c \<notin> set ?cs) scored_names,
              rws = map (\<lambda>r. (fst r, (snd r)(''Overall'' := overall dm dp (snd r)))) (rws d3)\<rparr>"
    using c4 r4 by simp
  with run show ?thesis
    unfolding dm_def dp_def rows by simp
qed

subsection \<open>The heuristic attrition ranking (C3)\<close>

lemma roster_enriched:
  "add_derived_columns roster =
     Inr \<lparr>columns = base_columns @ derived_names, rws = map (enrich_row False) (rws roster)\<rparr>"
proof -
  have "add_derived_columns roster =
     Inr \<lparr>columns = columns roster @ filter (\<lambda>c. c \<notin> set (columns roster)) derived_names,
          rws = map (enrich_row (''Attrition_Risk'' \<in> set (columns roster))) (rws roster)\<rparr>"
    by (rule add_derived_columns_closed) (simp_all add: roster_def base_columns_def)
  then show ?thesis
    by (simp add: roster_def base_columns_def derived_names_def)
qed

text \<open>
  Claim C3. The example roster has no \<^verbatim>\<open>Attrition_Risk\<close> column; its three rows
  meet three, none and one of the heuristic conditions, so their tiers are High, Low and
  Medium. \<^verbatim>\<open>who_is_going_to_leave\<close> sorts the tier labels as text in descending
  order, which puts Medium first, Low second and High last: the High row does not come
  before the others, as the claim requires.
\<close>

theorem heuristic_order_on_roster:
  "column_of ''Heuristic_Attrition'' (who_is_going_to_leave roster 50)
     = Inr [Str ''Medium'', Str ''Low'', Str ''High'']"
  unfolding who_is_going_to_leave_def roster_enriched
  by (simp add: column_of_def base_columns_def derived_names_def getcol_def roster_def mk_row_def
        enrich_row_def fillna_def compare_series_def setcol_def heuristic_label_def
        sort_values_def sort_by_def select_cols_def head_def head_rows_def)

subsection \<open>Sorting, masks and heads\<close>

lemma length_insort_by [simp]: "length (insort_by le x xs) = Suc (length xs)"
  by (induction xs) simp_all

lemma set_insort_by [simp]: "set (insort_by le x xs) = insert x (set xs)"
  by (induction xs) auto

lemma length_sort_by [simp]: "length (sort_by le xs) = length xs"
  by (induction xs) (simp_all add: sort_by_def)

lemma set_sort_by [simp]: "set (sort_by le xs) = set xs"
  by (induction xs) (simp_all add: sort_by_def)

lemma sort_by_Nil [simp]: "sort_by le [] = []"
  by (simp add: sort_by_def)

lemma sort_by_Nil_iff [simp]: "sort_by le xs = [] \<longleftrightarrow> xs = []"
  using length_sort_by [of le xs] by (metis length_0_conv)

lemma sort_values_present:
  "set (map fst keys) \<subseteq> set (columns d) \<Longrightarrow>
   sort_values d keys = Inr (d\<lparr>rws := sort_by (\<lambda>x y. keys_le keys (snd x) (snd y)) (rws d)\<rparr>)"
proof -
  assume "set (map fst keys) \<subseteq> set (columns d)"
  then have "filter (\<lambda>c. c \<notin> set (columns d)) (map fst keys) = []"
    by (auto simp: filter_empty_conv)
  then show ?thesis by (simp add: sort_values_def)
qed

lemma select_cols_present:
  "set cs \<subseteq> set (columns d) \<Longrightarrow> select_cols d cs = Inr (d\<lparr>columns := cs\<rparr>)"
proof -
  assume "set cs \<subseteq> set (columns d)"
  then have "filter (\<lambda>c. c \<notin> set (columns d)) cs = []"
    by (auto simp: filter_empty_conv)
  then show ?thesis by (simp add: select_cols_def)
qed

lemma filter_zip_map: "map fst (filter snd (zip xs (map p xs))) = filter p xs"
  by (induction xs) simp_all

lemma rws_mask_rows_map: "rws (mask_rows d (map p (rws d))) = filter p (rws d)"
  by (simp add: mask_rows_def filter_zip_map)

lemma columns_mask_rows [simp]: "columns (mask_rows d m) = columns d"
  by (simp add: mask_rows_def)

lemma set_dedupe [simp]: "set (dedupe cs) = set cs"
proof (induction cs rule: dedupe.induct)
  case 1
  then show ?case by simp
next
  case (2 c cs)
  then show ?case by auto
qed

lemma rws_head_nonneg: "0 \<le> n \<Longrightarrow> rws (head n d) = take (nat n) (rws d)"
  by (simp add: head_def head_rows_def)

lemma set_head_rows: "set (head_rows n xs) \<subseteq> set xs"
  by (auto simp: head_rows_def dest: in_set_takeD)

lemma length_head_rows_nonneg: "0 \<le> n \<Longrightarrow> length (head_rows n xs) = min (nat n) (length xs)"
  by (simp add: head_rows_def min.commute)

lemma columns_head [simp]: "columns (head n d) = columns d"
  by (simp add: head_def)

subsection \<open>Picking one row per role\<close>

lemma pick_roles_facts:
  assumes ps: "''Primary_Skill'' \<in> set (columns d)" and ov: "''Overall'' \<in> set (columns d)"
  shows "\<exists>picks. pick_roles d roles = Inr picks
     \<and> length picks \<le> length roles
     \<and> (\<forall>l \<in> set picks. \<exists>r \<in> set (rws d). fst r = l \<and> (\<exists>role \<in> set roles. snd r ''Primary_Skill'' = Str role))
     \<and> (\<forall>role \<in> set roles. (\<exists>r \<in> set (rws d). snd r ''Primary_Skill'' = Str role)
           \<longrightarrow> (\<exists>r \<in> set (rws d). fst r \<in> set picks \<and> snd r ''Primary_Skill'' = Str role))
     \<and> (distinct roles \<and> distinct (map fst (rws d)) \<longrightarrow> distinct picks)"
proof (induction roles)
  case Nil
  then show ?case by simp
next
  case (Cons role roles)
  then obtain more where more: "pick_roles d roles = Inr more"
    and len: "length more \<le> length roles"
    and src: "\<forall>l \<in> set more. \<exists>r \<in> set (rws d). fst r = l \<and> (\<exists>role \<in> set roles. snd r ''Primary_Skill'' = Str role)"
    and cov: "\<forall>role \<in> set roles. (\<exists>r \<in> set (rws d). snd r ''Primary_Skill'' = Str role)
           \<longrightarrow> (\<exists>r \<in> set (rws d). fst r \<in> set more \<and> snd r ''Primary_Skill'' = Str role)"
    and dis: "distinct roles \<and> distinct (map fst (rws d)) \<longrightarrow> distinct more"
    by blast
  define sub where "sub = filter (\<lambda>r. snd r ''Primary_Skill'' = Str role) (rws d)"
  define ord where "ord = by_overall"
  have g: "getcol d ''Primary_Skill'' = Inr (map (\<lambda>r. snd r ''Primary_Skill'') (rws d))"
    using ps by (rule getcol_present)
  have m: "mask_rows d (eq_text (map (\<lambda>r. snd r ''Primary_Skill'') (rws d)) role)
             = mask_rows d (map (\<lambda>r. snd r ''Primary_Skill'' = Str role) (rws d))"
    by (simp add: eq_text_def o_def)
  have rsub: "rws (mask_rows d (map (\<lambda>r. snd r ''Primary_Skill'' = Str role) (rws d))) = sub"
    unfolding sub_def by (rule rws_mask_rows_map)
  have sv: "sort_values (mask_rows d (map (\<lambda>r. snd r ''Primary_Skill'' = Str role) (rws d))) [(''Overall'', False)]
      = Inr ((mask_rows d (map (\<lambda>r. snd r ''Primary_Skill'' = Str role) (rws d)))\<lparr>rws := sort_by ord sub\<rparr>)"
    using ov by (simp add: sort_values_present rsub ord_def by_overall_def [abs_def])
  define p where "p = (case sort_by ord sub of [] \<Rightarrow> [] | r # _ \<Rightarrow> [fst r])"
  have run: "pick_roles d (role # roles) = Inr (p @ more)"
  proof (cases "sub = []")
    case True
    then show ?thesis
      by (simp add: g m rsub more p_def Let_def)
  next
    case False
    then obtain r rs where "sort_by ord sub = r # rs"
      by (cases "sort_by ord sub") auto
    with False show ?thesis
      by (simp add: g m rsub sv more p_def Let_def)
  qed
  have p_cases: "p = [] \<and> sub = [] \<or> (\<exists>r \<in> set sub. p = [fst r])"
  proof (cases "sort_by ord sub")
    case Nil
    then show ?thesis by (simp add: p_def)
  next
    case (Cons r rs)
    then have "r \<in> set (sort_by ord sub)" by simp
    then have "r \<in> set sub" by simp
    with Cons show ?thesis by (auto simp: p_def)
  qed
  have sub_mem: "r \<in> set sub \<longleftrightarrow> r \<in> set (rws d) \<and> snd r ''Primary_Skill'' = Str role" for r
    by (auto simp: sub_def)
  have c1: "length (p @ more) \<le> length (role # roles)"
    using p_cases len by auto
  have c2: "\<forall>l \<in> set (p @ more). \<exists>r \<in> set (rws d). fst r = l
              \<and> (\<exists>role' \<in> set (role # roles). snd r ''Primary_Skill'' = Str role')"
  proof
    fix l assume "l \<in> set (p @ more)"
    then consider "l \<in> set p" | "l \<in> set more" by auto
    then show "\<exists>r \<in> set (rws d). fst r = l \<and> (\<exists>role' \<in> set (role # roles). snd r ''Primary_Skill'' = Str role')"
    proof cases
      case 1
      with p_cases obtain r where "r \<in> set sub" "l = fst r" by auto
      then show ?thesis using sub_mem by auto
    next
      case 2
      with src show ?thesis by fastforce
    qed
  qed
  have c3: "\<forall>role' \<in> set (role # roles). (\<exists>r \<in> set (rws d). snd r ''Primary_Skill'' = Str role')
           \<longrightarrow> (\<exists>r \<in> set (rws d). fst r \<in> set (p @ more) \<and> snd r ''Primary_Skill'' = Str role')"
  proof (intro ballI impI)
    fix role' assume r': "role' \<in> set (role # roles)"
      and ex: "\<exists>r \<in> set (rws d). snd r ''Primary_Skill'' = Str role'"
    show "\<exists>r \<in> set (rws d). fst r \<in> set (p @ more) \<and> snd r ''Primary_Skill'' = Str role'"
    proof (cases "role' = role")
      case True
      with ex have "sub \<noteq> []" using sub_mem by (metis empty_iff list.set(1))
      with p_cases obtain r where "r \<in> set sub" "p = [fst r]" by auto
      then show ?thesis using sub_mem True by auto
    next
      case False
      with r' have "role' \<in> set roles" by simp
      with cov ex obtain r where "r \<in> set (rws d)" "fst r \<in> set more" "snd r ''Primary_Skill'' = Str role'"
        by blast
      then show ?thesis by auto
    qed
  qed
  have c4: "distinct (role # roles) \<and> distinct (map fst (rws d)) \<longrightarrow> distinct (p @ more)"
  proof
    assume a: "distinct (role # roles) \<and> distinct (map fst (rws d))"
    then have dm: "distinct more" using dis by simp
    have inj: "inj_on fst (set (rws d))"
      using a by (simp add: distinct_map)
    have "set p \<inter> set more = {}"
    proof (rule ccontr)
      assume "set p \<inter> set more \<noteq> {}"
      then obtain l where lp: "l \<in> set p" and lm: "l \<in> set more" by auto
      from lp p_cases obtain r where r: "r \<in> set sub" "l = fst r" by auto
      from lm src obtain r' role' where r': "r' \<in> set (rws d)" "fst r' = l" "role' \<in> set roles"
        "snd r' ''Primary_Skill'' = Str role'" by blast
      from r sub_mem have rd: "r \<in> set (rws d)" "snd r ''Primary_Skill'' = Str role" by auto
      from inj rd(1) r'(1) r(2) r'(2) have "r = r'" by (auto dest: inj_onD)
      with rd(2) r'(4) have "role = role'" by simp
      with r'(3) a show False by simp
    qed
    moreover have "distinct p" using p_cases by auto
    ultimately show "distinct (p @ more)" using dm by simp
  qed
  from run c1 c2 c3 c4 show ?case by blast
qed

subsection \<open>The chosen team\<close>

lemma candidates_restricted:
  assumes "''Primary_Skill'' \<in> set (columns d0)"
  shows "rws (mask_rows d0 (isin (map (\<lambda>r. snd r ''Primary_Skill'') (rws d0)) (role_list roles)))
           = candidates d0 roles True \<or> \<not> truthy roles"
proof -
  have "isin (map (\<lambda>r. snd r ''Primary_Skill'') (rws d0)) (role_list roles)
      = map (\<lambda>r. case snd r ''Primary_Skill'' of Str s \<Rightarrow> s \<in> set (role_list roles) | _ \<Rightarrow> False) (rws d0)"
    by (simp add: isin_def o_def)
  then show ?thesis
    by (simp add: candidates_def rws_mask_rows_map)
qed

lemma choose_team_rows:
  assumes ov: "''Overall'' \<in> set (columns d0)"
    and ps: "truthy roles \<longrightarrow> ''Primary_Skill'' \<in> set (columns d0)"
  shows "\<exists>picks team. choose_team d0 headcount roles restrict = Inr team
     \<and> (if truthy roles \<and> \<not> restrict
         then pick_roles (d0\<lparr>rws := candidates d0 roles restrict\<rparr>) (role_list roles) = Inr picks
         else picks = [])
     \<and> rws team =
         head_rows headcount (sort_by by_overall
           (concat (map (\<lambda>l. filter (\<lambda>r. fst r = l) (candidates d0 roles restrict)) picks)
            @ head_rows (max 0 (headcount - int (length picks)))
                (sort_by by_overall (filter (\<lambda>r. fst r \<notin> set picks) (candidates d0 roles restrict)))))"
proof -
  define d where "d = d0\<lparr>rws := candidates d0 roles restrict\<rparr>"
  have cd: "columns d = columns d0" by (simp add: d_def)
  have rd: "rws d = candidates d0 roles restrict" by (simp add: d_def)
  have step1: "(if restrict \<and> truthy roles
               then err_bind (getcol d0 ''Primary_Skill'') (\<lambda>ps.
                      Inr (mask_rows d0 (isin ps (role_list roles))))
               else Inr d0) = Inr d"
  proof (cases "restrict \<and> truthy roles")
    case True
    then have p: "''Primary_Skill'' \<in> set (columns d0)" using ps by simp
    have "mask_rows d0 (isin (map (\<lambda>r. snd r ''Primary_Skill'') (rws d0)) (role_list roles)) = d"
      using candidates_restricted [OF p, of roles] True
      by (simp add: d_def mask_rows_def)
    with True p show ?thesis by (simp add: getcol_present)
  next
    case False
    then have "candidates d0 roles restrict = rws d0" by (auto simp: candidates_def)
    then have "d = d0" by (simp add: d_def)
    with False show ?thesis by auto
  qed
  obtain picks where picks: "(if truthy roles \<and> \<not> restrict
               then pick_roles d (role_list roles) else Inr []) = Inr picks"
    and picks': "if truthy roles \<and> \<not> restrict
         then pick_roles d (role_list roles) = Inr picks else picks = []"
  proof (cases "truthy roles \<and> \<not> restrict")
    case True
    then have "''Primary_Skill'' \<in> set (columns d)" "''Overall'' \<in> set (columns d)"
      using ps ov cd by simp_all
    from pick_roles_facts [OF this, of "role_list roles"] obtain p where
      "pick_roles d (role_list roles) = Inr p" by blast
    with True that show ?thesis by simp
  next
    case False
    with that show ?thesis by simp
  qed
  define R where "R = sort_by by_overall (filter (\<lambda>r. fst r \<notin> set picks) (rws d))"
  have step3: "sort_values (drop_index d picks) [(''Overall'', False)]
      = Inr ((drop_index d picks)\<lparr>rws := R\<rparr>)"
    using ov cd by (simp add: sort_values_present drop_index_def R_def by_overall_def [abs_def])
  define rest where "rest = head (max 0 (headcount - int (length picks))) ((drop_index d picks)\<lparr>rws := R\<rparr>)"
  have rrest: "rws rest = head_rows (max 0 (headcount - int (length picks))) R"
    by (simp add: rest_def head_def)
  define T where "T = sort_by by_overall (rws (loc d picks) @ rws rest)"
  have step4: "sort_values (concat_frames (loc d picks) rest) [(''Overall'', False)]
      = Inr ((concat_frames (loc d picks) rest)\<lparr>rws := T\<rparr>)"
    using ov cd by (simp add: sort_values_present concat_frames_def loc_def T_def by_overall_def [abs_def])
  define team where "team = head headcount ((concat_frames (loc d picks) rest)\<lparr>rws := T\<rparr>)"
  have ct: "columns team = columns d0"
    by (simp add: team_def concat_frames_def loc_def cd)
  define cols where "cols = filter (\<lambda>c. c \<in> set (columns team))
                  [''Personnel_ID'', ''Name'', ''Rank'', ''Primary_Skill'', ''Readiness_Level'',
                   ''Medical_Category'', ''Leadership_Potential'', ''Performance_Rating'',
                   ''Overall''] @ [''Overall'']"
  have "set cols \<subseteq> set (columns team)"
    using ov ct by (auto simp: cols_def)
  then have step5: "select_cols team (dedupe cols) = Inr (team\<lparr>columns := dedupe cols\<rparr>)"
    by (intro select_cols_present) simp
  have run: "choose_team d0 headcount roles restrict = Inr (team\<lparr>columns := dedupe cols\<rparr>)"
    unfolding choose_team_def step1 err_bind_Inr picks Let_def step3
    unfolding rest_def [symmetric] step4 err_bind_Inr team_def [symmetric] cols_def [symmetric] step5 ..
  have rows: "rws (team\<lparr>columns := dedupe cols\<rparr>) =
         head_rows headcount (sort_by by_overall
           (concat (map (\<lambda>l. filter (\<lambda>r. fst r = l) (candidates d0 roles restrict)) picks)
            @ head_rows (max 0 (headcount - int (length picks)))
                (sort_by by_overall (filter (\<lambda>r. fst r \<notin> set picks) (candidates d0 roles restrict)))))"
    by (simp add: team_def head_def T_def rrest R_def rd loc_def)
  from run picks' rows show ?thesis
    unfolding d_def by blast
qed

subsection \<open>Rows and labels of the scored frame\<close>

lemma prepare_row_skill:
  "fst (prepare_row parse cols r) = fst r"
  "snd (prepare_row parse cols r) ''Primary_Skill'' = snd r ''Primary_Skill''"
  by (simp_all add: prepare_row_def enrich_row_def)

lemma score_table_frame:
  assumes "set [''Medical_Category'', ''Leadership_Potential'', ''Readiness_Level''] \<subseteq> set (columns df)"
  shows "\<exists>d0 F. score_table parse df = Inr d0
     \<and> ''Overall'' \<in> set (columns d0)
     \<and> set (columns df) \<subseteq> set (columns d0)
     \<and> rws d0 = map F (rws df)
     \<and> (\<forall>r. fst (F r) = fst r \<and> snd (F r) ''Primary_Skill'' = snd r ''Primary_Skill'')"
proof -
  let ?cs = "columns df"
  define dm where "dm = py_max (series_max (map (\<lambda>r. snd r ''Missions_Completed'')
                                  (map (prepare_row parse ?cs) (rws df)))) 1"
  define dp where "dp = perf_denominator (series_max (map (\<lambda>r. snd r ''Performance_Rating'')
                                  (map (prepare_row parse ?cs) (rws df))))"
  define F where "F = (\<lambda>r. (\<lambda>r::row. (fst r, (snd r)(''Overall'' := overall dm dp (snd r))))
                          (prepare_row parse ?cs r))"
  define d0 where "d0 = \<lparr>columns = ?cs @ filter (\<lambda>c. c \<notin> set ?cs) scored_names,
                         rws = map F (rws df)\<rparr>"
  have "score_table parse df = Inr d0"
    unfolding d0_def F_def dm_def dp_def using assms
    by (subst score_table_closed) (simp_all add: o_def)
  moreover have "''Overall'' \<in> set (columns d0)"
    by (auto simp: d0_def scored_names_def)
  moreover have "set ?cs \<subseteq> set (columns d0)"
    by (simp add: d0_def)
  moreover have "rws d0 = map F (rws df)"
    by (simp add: d0_def)
  moreover have "\<forall>r. fst (F r) = fst r \<and> snd (F r) ''Primary_Skill'' = snd r ''Primary_Skill''"
    by (simp add: F_def prepare_row_skill)
  ultimately show ?thesis by blast
qed

lemma candidates_map:
  assumes "rws d0 = map F (rws df)"
    and "\<forall>r. fst (F r) = fst r \<and> snd (F r) ''Primary_Skill'' = snd r ''Primary_Skill''"
  shows "candidates d0 roles restrict = map F (candidates df roles restrict)"
proof -
  have eq: "snd (F r) ''Primary_Skill'' = snd r ''Primary_Skill''" for r
    using assms(2) by blast
  show ?thesis
    by (simp add: candidates_def assms(1) filter_map o_def eq)
qed


lemma length_filter_label:
  "distinct (map fst C) \<Longrightarrow> l \<in> fst ` set C \<Longrightarrow> length (filter (\<lambda>r. fst r = l) C) = 1"
proof (induction C)
  case Nil
  then show ?case by simp
next
  case (Cons c C)
  show ?case
  proof (cases "fst c = l")
    case True
    with Cons.prems have "l \<notin> fst ` set C" by auto
    then have "filter (\<lambda>r. fst r = l) C = []"
      by (auto simp: filter_empty_conv)
    with True show ?thesis by simp
  next
    case False
    with Cons show ?thesis by auto
  qed
qed

lemma length_filter_label_le:
  "distinct (map fst C) \<Longrightarrow> length (filter (\<lambda>r. fst r = l) C) \<le> 1"
proof (cases "l \<in> fst ` set C")
  case True
  assume "distinct (map fst C)"
  with True show ?thesis by (simp add: length_filter_label)
next
  case False
  then have "filter (\<lambda>r. fst r = l) C = []"
    by (auto simp: filter_empty_conv)
  then show ?thesis by simp
qed

lemma length_loc_rows:
  assumes "distinct (map fst C)" "set picks \<subseteq> fst ` set C"
  shows "length (concat (map (\<lambda>l. filter (\<lambda>r. fst r = l) C) picks)) = length picks"
  using assms(2)
proof (induction picks)
  case Nil
  then show ?case by simp
next
  case (Cons l picks)
  then show ?case
    using length_filter_label [OF assms(1), of l] by simp
qed

lemma length_loc_rows_le:
  assumes "distinct (map fst C)"
  shows "length (concat (map (\<lambda>l. filter (\<lambda>r. fst r = l) C) picks)) \<le> length picks"
proof (induction picks)
  case Nil
  then show ?case by simp
next
  case (Cons l picks)
  then show ?case
    using length_filter_label_le [OF assms, of l] by simp
qed

lemma set_loc_rows:
  "set (concat (map (\<lambda>l. filter (\<lambda>r. fst r = l) C) picks)) = {r \<in> set C. fst r \<in> set picks}"
  by auto

lemma length_picked:
  assumes d: "distinct (map fst C)" and p: "distinct picks" and s: "set picks \<subseteq> fst ` set C"
  shows "length (filter (\<lambda>r. fst r \<in> set picks) C) = length picks"
proof -
  define ls where "ls = filter (\<lambda>l. l \<in> set picks) (map fst C)"
  have m: "map fst (filter (\<lambda>r. fst r \<in> set picks) C) = ls"
    by (simp add: ls_def filter_map o_def)
  have dl: "distinct ls"
    using d by (simp add: ls_def)
  have sl: "set ls = set picks"
    using s by (auto simp: ls_def)
  have "length ls = card (set ls)"
    using dl by (rule distinct_card [symmetric])
  also have "\<dots> = card (set picks)"
    by (simp only: sl)
  also have "\<dots> = length picks"
    using p by (rule distinct_card)
  finally have "length (map fst (filter (\<lambda>r. fst r \<in> set picks) C)) = length picks"
    by (simp only: m)
  then show ?thesis by simp
qed

lemma length_unpicked:
  assumes "distinct (map fst C)" "distinct picks" "set picks \<subseteq> fst ` set C"
  shows "length (filter (\<lambda>r. fst r \<notin> set picks) C) = length C - length picks"
  using sum_length_filter_compl [of "\<lambda>r. fst r \<in> set picks" C] length_picked [OF assms]
  by simp

subsection \<open>Restricted selection (C6)\<close>

lemma select_best_team_rows:
  assumes cols: "set [''Medical_Category'', ''Leadership_Potential'', ''Readiness_Level''] \<subseteq> set (columns df)"
    and ps: "truthy roles \<longrightarrow> ''Primary_Skill'' \<in> set (columns df)"
  shows "\<exists>d0 F picks team. score_table parse df = Inr d0
     \<and> rws d0 = map F (rws df)
     \<and> (\<forall>r. fst (F r) = fst r \<and> snd (F r) ''Primary_Skill'' = snd r ''Primary_Skill'')
     \<and> ''Overall'' \<in> set (columns d0)
     \<and> (truthy roles \<longrightarrow> ''Primary_Skill'' \<in> set (columns d0))
     \<and> select_best_team parse df headcount roles restrict = Inr team
     \<and> (if truthy roles \<and> \<not> restrict
         then pick_roles (d0\<lparr>rws := map F (candidates df roles restrict)\<rparr>) (role_list roles) = Inr picks
         else picks = [])
     \<and> rws team =
         head_rows headcount (sort_by by_overall
           (concat (map (\<lambda>l. filter (\<lambda>r. fst r = l) (map F (candidates df roles restrict))) picks)
            @ head_rows (max 0 (headcount - int (length picks)))
                (sort_by by_overall
                   (filter (\<lambda>r. fst r \<notin> set picks) (map F (candidates df roles restrict))))))"
proof -
  from score_table_frame [OF cols, of parse] obtain d0 F where
    run: "score_table parse df = Inr d0" and ov: "''Overall'' \<in> set (columns d0)"
    and sub: "set (columns df) \<subseteq> set (columns d0)" and rows: "rws d0 = map F (rws df)"
    and F: "\<forall>r. fst (F r) = fst r \<and> snd (F r) ''Primary_Skill'' = snd r ''Primary_Skill''"
    by blast
  have ps0: "truthy roles \<longrightarrow> ''Primary_Skill'' \<in> set (columns d0)"
    using ps sub by auto
  have c: "candidates d0 roles restrict = map F (candidates df roles restrict)"
    using rows F by (rule candidates_map)
  from choose_team_rows [OF ov ps0, of headcount restrict] obtain picks team where
    ch: "choose_team d0 headcount roles restrict = Inr team"
    and pk: "if truthy roles \<and> \<not> restrict
         then pick_roles (d0\<lparr>rws := candidates d0 roles restrict\<rparr>) (role_list roles) = Inr picks
         else picks = []"
    and tr: "rws team =
         head_rows headcount (sort_by by_overall
           (concat (map (\<lambda>l. filter (\<lambda>r. fst r = l) (candidates d0 roles restrict)) picks)
            @ head_rows (max 0 (headcount - int (length picks)))
                (sort_by by_overall (filter (\<lambda>r. fst r \<notin> set picks) (candidates d0 roles restrict)))))"
    by blast
  have sel: "select_best_team parse df headcount roles restrict = Inr team"
    unfolding select_best_team_def run err_bind_Inr by (rule ch)
  show ?thesis
    by (intro exI conjI) (rule run, rule rows, rule F, rule ov, rule ps0, rule sel,
        rule pk [unfolded c], rule tr [unfolded c])
qed

lemma team_rows_subset:
  assumes "rws team =
         head_rows headcount (sort_by le
           (concat (map (\<lambda>l. filter (\<lambda>r. fst r = l) C) picks)
            @ head_rows n (sort_by le (filter (\<lambda>r. fst r \<notin> set picks) C))))"
  shows "set (rws team) \<subseteq> set C"
proof -
  define L where "L = concat (map (\<lambda>l. filter (\<lambda>r. fst r = l) C) picks)"
  define R where "R = head_rows n (sort_by le (filter (\<lambda>r. fst r \<notin> set picks) C))"
  have t: "rws team = head_rows headcount (sort_by le (L @ R))"
    unfolding L_def R_def by (rule assms)
  have "set (rws team) \<subseteq> set (sort_by le (L @ R))"
    unfolding t by (rule set_head_rows)
  then have 1: "set (rws team) \<subseteq> set L \<union> set R"
    by simp
  have 2: "set L \<subseteq> set C"
    by (auto simp: L_def)
  have "set R \<subseteq> set (sort_by le (filter (\<lambda>r. fst r \<notin> set picks) C))"
    unfolding R_def by (rule set_head_rows)
  then have 3: "set R \<subseteq> set C"
    by auto
  from 1 2 3 show ?thesis by blast
qed

text \<open>
  Claim C6. For every table with the categorical columns and a primary-skill column,
  every headcount and every non-empty list of required roles, \<^verbatim>\<open>select_best_team\<close> with
  \<^verbatim>\<open>restrict_to_roles\<close> set returns a team, and the primary skill of every row of the
  team is one of the required roles; with the single role Pilot every row is a Pilot.
\<close>

theorem restricted_team_roles:
  assumes cols: "set [''Medical_Category'', ''Leadership_Potential'', ''Readiness_Level'',
                      ''Primary_Skill''] \<subseteq> set (columns df)"
    and ne: "required \<noteq> []"
  shows "\<exists>team. select_best_team parse df headcount (Some required) True = Inr team
     \<and> (\<forall>r \<in> set (rws team). \<exists>s \<in> set required. snd r ''Primary_Skill'' = Str s)
     \<and> (required = [''Pilot''] \<longrightarrow> (\<forall>r \<in> set (rws team). snd r ''Primary_Skill'' = Str ''Pilot''))"
proof -
  have t: "truthy (Some required)" using ne by (cases required) simp_all
  have c3: "set [''Medical_Category'', ''Leadership_Potential'', ''Readiness_Level''] \<subseteq> set (columns df)"
    using cols by simp
  have ps: "truthy (Some required) \<longrightarrow> ''Primary_Skill'' \<in> set (columns df)"
    using cols by simp
  from select_best_team_rows [OF c3 ps, of parse headcount True] obtain F picks team where
    F: "\<forall>r. fst (F r) = fst r \<and> snd (F r) ''Primary_Skill'' = snd r ''Primary_Skill''"
    and run: "select_best_team parse df headcount (Some required) True = Inr team"
    and rows: "rws team =
         head_rows headcount (sort_by by_overall
           (concat (map (\<lambda>l. filter (\<lambda>r. fst r = l) (map F (candidates df (Some required) True))) picks)
            @ head_rows (max 0 (headcount - int (length picks)))
                (sort_by by_overall
                   (filter (\<lambda>r. fst r \<notin> set picks) (map F (candidates df (Some required) True))))))"
    by blast
  have sub: "set (rws team) \<subseteq> set (map F (candidates df (Some required) True))"
    using rows by (rule team_rows_subset)
  have all: "\<forall>r \<in> set (rws team). \<exists>s \<in> set required. snd r ''Primary_Skill'' = Str s"
  proof
    fix r assume "r \<in> set (rws team)"
    with sub obtain r0 where r0: "r0 \<in> set (candidates df (Some required) True)" "r = F r0"
      by auto
    from r0(1) t obtain s where "snd r0 ''Primary_Skill'' = Str s" "s \<in> set required"
      by (cases "snd r0 ''Primary_Skill''") (simp_all add: candidates_def)
    moreover have "snd (F r0) ''Primary_Skill'' = snd r0 ''Primary_Skill''"
      using F by blast
    ultimately show "\<exists>s \<in> set required. snd r ''Primary_Skill'' = Str s"
      using r0(2) by auto
  qed
  then have "required = [''Pilot''] \<longrightarrow> (\<forall>r \<in> set (rws team). snd r ''Primary_Skill'' = Str ''Pilot'')"
    by auto
  with run all show ?thesis by blast
qed


theorem restricted_team_roles_witness:
  "set [''Medical_Category'', ''Leadership_Potential'', ''Readiness_Level'', ''Primary_Skill'']
     \<subseteq> set (columns roster)
   \<and> [''Pilot''] \<noteq> []
   \<and> (\<exists>team. select_best_team no_parse roster 5 (Some [''Pilot'']) True = Inr team
        \<and> (\<forall>r \<in> set (rws team). snd r ''Primary_Skill'' = Str ''Pilot''))"
proof -
  have h: "set [''Medical_Category'', ''Leadership_Potential'', ''Readiness_Level'', ''Primary_Skill'']
     \<subseteq> set (columns roster)"
    by (simp add: roster_def base_columns_def)
  have ne: "[''Pilot''] \<noteq> []" by simp
  from restricted_team_roles [OF h ne, of no_parse 5] h ne show ?thesis by blast
qed

subsection \<open>Team size without repeated roles\<close>

lemma head_rows_all: "0 \<le> n \<Longrightarrow> length xs \<le> nat n \<Longrightarrow> head_rows n xs = xs"
  by (simp add: head_rows_def)

lemma distinct_candidates:
  "distinct (map fst (rws df)) \<Longrightarrow> distinct (map fst (candidates df roles restrict))"
  by (simp add: candidates_def distinct_map_filter)

lemma team_length_arith:
  fixes h :: int and p n :: nat
  assumes "0 \<le> h" "p \<le> n"
  shows "min (nat h) (p + min (nat (max 0 (h - int p))) (n - p)) = min (nat h) n"
  using assms by (auto simp: min_def max_def)

lemma picks_of_selection:
  assumes ps: "truthy roles \<longrightarrow> ''Primary_Skill'' \<in> set (columns d0)"
    and ov: "''Overall'' \<in> set (columns d0)"
    and pk: "if truthy roles \<and> \<not> restrict
         then pick_roles (d0\<lparr>rws := C\<rparr>) (role_list roles) = Inr picks
         else picks = []"
  shows "length picks \<le> length (role_list roles)
     \<and> set picks \<subseteq> fst ` set C
     \<and> (\<forall>role \<in> set (role_list roles). truthy roles \<and> \<not> restrict
           \<longrightarrow> (\<exists>r \<in> set C. snd r ''Primary_Skill'' = Str role)
           \<longrightarrow> (\<exists>r \<in> set C. fst r \<in> set picks \<and> snd r ''Primary_Skill'' = Str role))
     \<and> (distinct (role_list roles) \<and> distinct (map fst C) \<longrightarrow> distinct picks)"
proof (cases "truthy roles \<and> \<not> restrict")
  case True
  define d where "d = d0\<lparr>rws := C\<rparr>"
  have c: "''Primary_Skill'' \<in> set (columns d)" "''Overall'' \<in> set (columns d)"
    using True ps ov by (simp_all add: d_def)
  have rd: "rws d = C" by (simp add: d_def)
  from pick_roles_facts [OF c, of "role_list roles"] obtain picks' where
    p: "pick_roles d (role_list roles) = Inr picks'"
    and len: "length picks' \<le> length (role_list roles)"
    and src: "\<forall>l \<in> set picks'. \<exists>r \<in> set (rws d). fst r = l
               \<and> (\<exists>role \<in> set (role_list roles). snd r ''Primary_Skill'' = Str role)"
    and cov: "\<forall>role \<in> set (role_list roles). (\<exists>r \<in> set (rws d). snd r ''Primary_Skill'' = Str role)
           \<longrightarrow> (\<exists>r \<in> set (rws d). fst r \<in> set picks' \<and> snd r ''Primary_Skill'' = Str role)"
    and dis: "distinct (role_list roles) \<and> distinct (map fst (rws d)) \<longrightarrow> distinct picks'"
    by blast
  from pk True p have e: "picks' = picks" by (simp add: d_def)
  have "set picks \<subseteq> fst ` set C"
    using src unfolding e rd by force
  with len cov dis show ?thesis
    unfolding e rd by blast
next
  case False
  with pk have "picks = []" by simp
  with False show ?thesis by auto
qed

text \<open>
  The size of the team when no role is repeated. For a table with the categorical
  columns and unique row labels (as \<^verbatim>\<open>load_df\<close> produces them), a positive headcount
  and a required-roles list that repeats no role (or any list when the selection is
  restricted to the roles), \<^verbatim>\<open>select_best_team\<close> returns a team of exactly the smaller
  of the headcount and the number of candidate rows.
\<close>

theorem team_size:
  assumes cols: "set [''Medical_Category'', ''Leadership_Potential'', ''Readiness_Level''] \<subseteq> set (columns df)"
    and ps: "truthy roles \<longrightarrow> ''Primary_Skill'' \<in> set (columns df)"
    and labels: "distinct (map fst (rws df))"
    and h: "0 < headcount"
    and roles: "restrict \<or> distinct (role_list roles)"
  shows "\<exists>team. select_best_team parse df headcount roles restrict = Inr team
     \<and> length (rws team) = min (nat headcount) (length (candidates df roles restrict))
     \<and> length (rws team) \<le> nat headcount"
proof -
  from select_best_team_rows [OF cols ps, of parse headcount restrict] obtain d0 F picks team where
    F: "\<forall>r. fst (F r) = fst r \<and> snd (F r) ''Primary_Skill'' = snd r ''Primary_Skill''"
    and ov: "''Overall'' \<in> set (columns d0)"
    and ps0: "truthy roles \<longrightarrow> ''Primary_Skill'' \<in> set (columns d0)"
    and run: "select_best_team parse df headcount roles restrict = Inr team"
    and pk: "if truthy roles \<and> \<not> restrict
         then pick_roles (d0\<lparr>rws := map F (candidates df roles restrict)\<rparr>) (role_list roles) = Inr picks
         else picks = []"
    and rows: "rws team =
         head_rows headcount (sort_by by_overall
           (concat (map (\<lambda>l. filter (\<lambda>r. fst r = l) (map F (candidates df roles restrict))) picks)
            @ head_rows (max 0 (headcount - int (length picks)))
                (sort_by by_overall
                   (filter (\<lambda>r. fst r \<notin> set picks) (map F (candidates df roles restrict))))))"
    by blast
  define C where "C = map F (candidates df roles restrict)"
  have fstF: "fst (F r) = fst r" for r using F by blast
  have "map fst C = map fst (candidates df roles restrict)"
    by (simp add: C_def o_def fstF)
  then have dC: "distinct (map fst C)"
    using distinct_candidates [OF labels] by simp
  have lC: "length C = length (candidates df roles restrict)"
    by (simp add: C_def)
  from picks_of_selection [OF ps0 ov pk [folded C_def]]
  have sub: "set picks \<subseteq> fst ` set C"
    and dis: "distinct (role_list roles) \<and> distinct (map fst C) \<longrightarrow> distinct picks"
    by blast+
  have dp: "distinct picks"
  proof (cases restrict)
    case True
    with pk show ?thesis by simp
  next
    case False
    with roles dis dC show ?thesis by simp
  qed
  have lL: "length (concat (map (\<lambda>l. filter (\<lambda>r. fst r = l) C) picks)) = length picks"
    using dC sub by (rule length_loc_rows)
  have lR: "length (filter (\<lambda>r. fst r \<notin> set picks) C) = length C - length picks"
    using dC dp sub by (rule length_unpicked)
  have "length (filter (\<lambda>r. fst r \<in> set picks) C) = length picks"
    using dC dp sub by (rule length_picked)
  then have le: "length picks \<le> length C"
    using length_filter_le [of "\<lambda>r. fst r \<in> set picks" C] by simp
  have h0: "0 \<le> headcount" "0 \<le> max 0 (headcount - int (length picks))"
    using h by simp_all
  have "length (rws team) =
      min (nat headcount) (length picks + min (nat (max 0 (headcount - int (length picks)))) (length C - length picks))"
    unfolding rows C_def [symmetric]
    by (simp add: length_head_rows_nonneg h0 lL lR)
  also have "\<dots> = min (nat headcount) (length C)"
    using h0(1) le by (rule team_length_arith)
  finally have len: "length (rws team) = min (nat headcount) (length (candidates df roles restrict))"
    unfolding lC .
  then have "length (rws team) \<le> nat headcount" by simp
  with run len show ?thesis by blast
qed


theorem team_size_witness:
  "set [''Medical_Category'', ''Leadership_Potential'', ''Readiness_Level''] \<subseteq> set (columns roster)
   \<and> ''Primary_Skill'' \<in> set (columns roster)
   \<and> distinct (map fst (rws roster))
   \<and> (0::int) < 2
   \<and> distinct (role_list (Some [''Engineer'']))
   \<and> (\<exists>team. select_best_team no_parse roster 2 (Some [''Engineer'']) False = Inr team
        \<and> length (rws team) = 2)"
proof -
  have a: "set [''Medical_Category'', ''Leadership_Potential'', ''Readiness_Level''] \<subseteq> set (columns roster)"
    by (simp add: roster_def base_columns_def)
  have b: "truthy (Some [''Engineer'']) \<longrightarrow> ''Primary_Skill'' \<in> set (columns roster)"
    by (simp add: roster_def base_columns_def)
  have c: "distinct (map fst (rws roster))"
    by (simp add: roster_def mk_row_def)
  have d: "(0::int) < 2" by simp
  have e: "False \<or> distinct (role_list (Some [''Engineer'']))" by simp
  have n: "length (candidates roster (Some [''Engineer'']) False) = 3"
    by (simp add: candidates_def roster_def)
  from team_size [OF a b c d e, of no_parse] obtain team where
    "select_best_team no_parse roster 2 (Some [''Engineer'']) False = Inr team"
    "length (rws team) = min (nat 2) (length (candidates roster (Some [''Engineer'']) False))"
    by blast
  then have "\<exists>team. select_best_team no_parse roster 2 (Some [''Engineer'']) False = Inr team
        \<and> length (rws team) = 2"
    unfolding n by auto
  with a b c d e show ?thesis by simp
qed

subsection \<open>Role coverage (C2)\<close>

text \<open>
  Claim C2. For a table with unique row labels, a required-roles list and a headcount
  that is at least the length of the list, if the selection is not restricted and every
  required role is the primary skill of at least one row, then \<^verbatim>\<open>select_best_team\<close>
  returns a team that has, for every required role, a row with that primary skill.
\<close>

theorem role_coverage:
  assumes cols: "set [''Medical_Category'', ''Leadership_Potential'', ''Readiness_Level'',
                      ''Primary_Skill''] \<subseteq> set (columns df)"
    and labels: "distinct (map fst (rws df))"
    and h: "int (length required) \<le> headcount"
    and present: "\<forall>role \<in> set required. \<exists>r \<in> set (rws df). snd r ''Primary_Skill'' = Str role"
  shows "\<exists>team. select_best_team parse df headcount (Some required) False = Inr team
     \<and> (\<forall>role \<in> set required. \<exists>r \<in> set (rws team). snd r ''Primary_Skill'' = Str role)"
proof -
  let ?roles = "Some required"
  have c3: "set [''Medical_Category'', ''Leadership_Potential'', ''Readiness_Level''] \<subseteq> set (columns df)"
    using cols by simp
  have ps: "truthy ?roles \<longrightarrow> ''Primary_Skill'' \<in> set (columns df)"
    using cols by simp
  from select_best_team_rows [OF c3 ps, of parse headcount False] obtain d0 F picks team where
    F: "\<forall>r. fst (F r) = fst r \<and> snd (F r) ''Primary_Skill'' = snd r ''Primary_Skill''"
    and ov: "''Overall'' \<in> set (columns d0)"
    and ps0: "truthy ?roles \<longrightarrow> ''Primary_Skill'' \<in> set (columns d0)"
    and run: "select_best_team parse df headcount ?roles False = Inr team"
    and pk: "if truthy ?roles \<and> \<not> False
         then pick_roles (d0\<lparr>rws := map F (candidates df ?roles False)\<rparr>) (role_list ?roles) = Inr picks
         else picks = []"
    and rows: "rws team =
         head_rows headcount (sort_by by_overall
           (concat (map (\<lambda>l. filter (\<lambda>r. fst r = l) (map F (candidates df ?roles False))) picks)
            @ head_rows (max 0 (headcount - int (length picks)))
                (sort_by by_overall
                   (filter (\<lambda>r. fst r \<notin> set picks) (map F (candidates df ?roles False))))))"
    by blast
  define C where "C = map F (candidates df ?roles False)"
  have C: "C = map F (rws df)" by (simp add: C_def candidates_def)
  have fstF: "fst (F r) = fst r" and skF: "snd (F r) ''Primary_Skill'' = snd r ''Primary_Skill''" for r
    using F by blast+
  have "map fst C = map fst (rws df)"
    by (simp add: C o_def fstF)
  then have dC: "distinct (map fst C)"
    using labels by simp
  from picks_of_selection [OF ps0 ov pk [folded C_def]]
  have len: "length picks \<le> length required"
    and cov: "\<forall>role \<in> set required. truthy ?roles \<and> \<not> False
           \<longrightarrow> (\<exists>r \<in> set C. snd r ''Primary_Skill'' = Str role)
           \<longrightarrow> (\<exists>r \<in> set C. fst r \<in> set picks \<and> snd r ''Primary_Skill'' = Str role)"
    by simp_all
  define L where "L = concat (map (\<lambda>l. filter (\<lambda>r. fst r = l) C) picks)"
  define R where "R = head_rows (max 0 (headcount - int (length picks)))
                (sort_by by_overall (filter (\<lambda>r. fst r \<notin> set picks) C))"
  have t: "rws team = head_rows headcount (sort_by by_overall (L @ R))"
    unfolding L_def R_def C_def by (rule rows)
  have h0: "0 \<le> headcount" using h by simp
  have lp: "int (length picks) \<le> headcount" using len h by simp
  have lL: "length L \<le> length picks"
    unfolding L_def using dC by (rule length_loc_rows_le)
  have "length R \<le> nat (max 0 (headcount - int (length picks)))"
    unfolding R_def by (simp add: length_head_rows_nonneg)
  with lL lp have "length (sort_by by_overall (L @ R)) \<le> nat headcount"
    by simp
  with h0 have "rws team = sort_by by_overall (L @ R)"
    unfolding t by (rule head_rows_all)
  then have st: "set L \<subseteq> set (rws team)" by simp
  have "\<forall>role \<in> set required. \<exists>r \<in> set (rws team). snd r ''Primary_Skill'' = Str role"
  proof
    fix role assume role: "role \<in> set required"
    then have tr: "truthy ?roles" by (cases required) simp_all
    from present role obtain r0 where "r0 \<in> set (rws df)" "snd r0 ''Primary_Skill'' = Str role"
      by blast
    then have "F r0 \<in> set C" "snd (F r0) ''Primary_Skill'' = Str role"
      by (simp_all add: C skF)
    then have "\<exists>r \<in> set C. snd r ''Primary_Skill'' = Str role" by blast
    with cov role tr obtain r where r: "r \<in> set C" "fst r \<in> set picks" "snd r ''Primary_Skill'' = Str role"
      by blast
    then have "r \<in> set L" by (auto simp: L_def)
    with st r(3) show "\<exists>r \<in> set (rws team). snd r ''Primary_Skill'' = Str role" by blast
  qed
  with run show ?thesis by blast
qed

theorem role_coverage_witness:
  "set [''Medical_Category'', ''Leadership_Potential'', ''Readiness_Level'', ''Primary_Skill'']
     \<subseteq> set (columns roster)
   \<and> distinct (map fst (rws roster))
   \<and> int (length [''Engineer'', ''Pilot'']) \<le> 2
   \<and> (\<exists>r \<in> set (rws roster). snd r ''Primary_Skill'' = Str ''Engineer'')
   \<and> (\<exists>r \<in> set (rws roster). snd r ''Primary_Skill'' = Str ''Pilot'')
   \<and> (\<exists>team. select_best_team no_parse roster 2 (Some [''Engineer'', ''Pilot'']) False = Inr team
        \<and> (\<exists>r \<in> set (rws team). snd r ''Primary_Skill'' = Str ''Engineer'')
        \<and> (\<exists>r \<in> set (rws team). snd r ''Primary_Skill'' = Str ''Pilot''))"
proof -
  have a: "set [''Medical_Category'', ''Leadership_Potential'', ''Readiness_Level'', ''Primary_Skill'']
     \<subseteq> set (columns roster)"
    by (simp add: roster_def base_columns_def)
  have b: "distinct (map fst (rws roster))"
    by (simp add: roster_def mk_row_def)
  have c: "int (length [''Engineer'', ''Pilot'']) \<le> 2" by simp
  have d: "\<forall>role \<in> set [''Engineer'', ''Pilot'']. \<exists>r \<in> set (rws roster). snd r ''Primary_Skill'' = Str role"
    by (simp add: roster_def mk_row_def)
  from role_coverage [OF a b c d, of no_parse] obtain team where
    t: "select_best_team no_parse roster 2 (Some [''Engineer'', ''Pilot'']) False = Inr team"
    and v: "\<forall>role \<in> set [''Engineer'', ''Pilot'']. \<exists>r \<in> set (rws team). snd r ''Primary_Skill'' = Str role"
    by blast
  from v have "(\<exists>r \<in> set (rws team). snd r ''Primary_Skill'' = Str ''Engineer'')
        \<and> (\<exists>r \<in> set (rws team). snd r ''Primary_Skill'' = Str ''Pilot'')"
    by simp
  with t have "\<exists>team. select_best_team no_parse roster 2 (Some [''Engineer'', ''Pilot'']) False = Inr team
        \<and> (\<exists>r \<in> set (rws team). snd r ''Primary_Skill'' = Str ''Engineer'')
        \<and> (\<exists>r \<in> set (rws team). snd r ''Primary_Skill'' = Str ''Pilot'')"
    by blast
  moreover from d have "(\<exists>r \<in> set (rws roster). snd r ''Primary_Skill'' = Str ''Engineer'')
       \<and> (\<exists>r \<in> set (rws roster). snd r ''Primary_Skill'' = Str ''Pilot'')"
    by simp
  ultimately show ?thesis using a b c by blast
qed

subsection \<open>Team size with a repeated role (C1)\<close>

lemma solo_scored:
  "score_table no_parse solo = Inr
     \<lparr>columns = base_columns @ [''Medical_Score'', ''Leadership_Score'', ''Readiness_Score'', ''Attrition_Score'', ''Overall''],
      rws = map (\<lambda>r. (fst r, (snd r)(''Overall'' := Num (127 / 25)))) (map (prepare_row no_parse base_columns) (rws solo))\<rparr>"
  apply (subst score_table_closed)
     apply (simp_all add: solo_def base_columns_def scored_names_def derived_names_def)
  apply (simp add: prepare_row_def enrich_row_def mk_row_def cast_cell_def cast_value_def no_parse_def
      score_of_def py_max_def perf_denominator_def overall_def)
  done

text \<open>
  Claim C1. The team should have min(headcount, candidate rows) rows. When the
  required-roles list repeats a role and the selection is not restricted, the coverage
  loop picks the best row of the role once per occurrence and \<^verbatim>\<open>d.loc[picked_idx]\<close>
  returns it as often. On the table of one Pilot, with headcount 2 and the roles Pilot,
  Pilot, \<^verbatim>\<open>select_best_team\<close> returns two rows, the row labelled 0 twice, although
  there is one candidate row and the claim gives min(2, 1) = 1.
\<close>

theorem repeated_role_team:
  "labels_of (select_best_team no_parse solo 2 (Some [''Pilot'', ''Pilot'']) False) = Inr [0, 0]
   \<and> length (candidates solo (Some [''Pilot'', ''Pilot'']) False) = 1"
  unfolding select_best_team_def solo_scored
  by (simp add: labels_of_def choose_team_def getcol_def base_columns_def eq_text_def mask_rows_def
        prepare_row_def enrich_row_def solo_def mk_row_def sort_values_def sort_by_def
        drop_index_def loc_def concat_frames_def head_def head_rows_def select_cols_def
        candidates_def Let_def)

subsection \<open>The Overall score (C4)\<close>

lemma series_max_Num:
  "series_max (map (\<lambda>r. Num (f r)) rs) = (if rs = [] then None else Some (Max (set (map f rs))))"
proof (induction rs)
  case Nil
  then show ?case by simp
next
  case (Cons r rs)
  then show ?case
    by (cases "rs = []") (simp_all add: max.commute)
qed

lemma py_max_Some: "py_max (Some x) 1 = Some (max x 1)"
  by (simp add: py_max_def max_def)

lemma perf_denominator_Some: "perf_denominator (Some x) = Some (if x > 5 then x else 5)"
  by (simp add: perf_denominator_def py_max_def)

lemma prepare_row_cells:
  "snd (prepare_row parse cols r) ''Readiness_Score'' = Num (documented_readiness (snd r ''Readiness_Level''))"
  "snd (prepare_row parse cols r) ''Leadership_Score'' = Num (documented_leadership (snd r ''Leadership_Potential''))"
  "snd (prepare_row parse cols r) ''Medical_Score'' = Num (documented_medical (snd r ''Medical_Category''))"
  "snd (prepare_row parse cols r) ''Performance_Rating''
     = Num (cast_value parse (''Performance_Rating'' \<in> set cols) (snd r ''Performance_Rating''))"
  "snd (prepare_row parse cols r) ''Training_Score''
     = Num (cast_value parse (''Training_Score'' \<in> set cols) (snd r ''Training_Score''))"
  "snd (prepare_row parse cols r) ''Missions_Completed''
     = Num (cast_value parse (''Missions_Completed'' \<in> set cols) (snd r ''Missions_Completed''))"
  by (simp_all add: prepare_row_def enrich_row_scores cast_cell_def)

lemma overall_numbers:
  assumes "r ''Readiness_Score'' = Num a" "r ''Leadership_Score'' = Num b"
    "r ''Performance_Rating'' = Num p" "r ''Medical_Score'' = Num m"
    "r ''Training_Score'' = Num t" "r ''Missions_Completed'' = Num c"
  shows "overall (Some dm) (Some dp) r
     = Num (2.5 * a + 1.5 * b + 1.2 * (p / dp) + 1.0 * (m / 100) + 0.6 * (t / 100) + 0.4 * (c / dm))"
  using assms by (simp add: overall_def)

lemma chosen_rows_subset:
  assumes ov: "''Overall'' \<in> set (columns d0)"
    and ps: "truthy roles \<longrightarrow> ''Primary_Skill'' \<in> set (columns d0)"
    and run: "choose_team d0 headcount roles restrict = Inr team"
  shows "set (rws team) \<subseteq> set (rws d0)"
proof -
  from choose_team_rows [OF ov ps, of headcount restrict] obtain picks team' where
    r: "choose_team d0 headcount roles restrict = Inr team'"
    and rows: "rws team' =
         head_rows headcount (sort_by by_overall
           (concat (map (\<lambda>l. filter (\<lambda>r. fst r = l) (candidates d0 roles restrict)) picks)
            @ head_rows (max 0 (headcount - int (length picks)))
                (sort_by by_overall (filter (\<lambda>r. fst r \<notin> set picks) (candidates d0 roles restrict)))))"
    by blast
  from r run have e: "team' = team" by simp
  have "set (rws team') \<subseteq> set (candidates d0 roles restrict)"
    using rows by (rule team_rows_subset)
  moreover have "set (candidates d0 roles restrict) \<subseteq> set (rws d0)"
    by (auto simp: candidates_def)
  ultimately show ?thesis unfolding e by blast
qed

text \<open>
  Claim C4. For every table with the three categorical columns and every row \<open>k\<close> of
  it, the scored frame that \<^verbatim>\<open>select_best_team\<close> builds has in its \<^verbatim>\<open>Overall\<close> column,
  at row \<open>k\<close>, 2.5 times the readiness score plus 1.5 times the leadership score plus 1.2
  times the performance over 5 (over the largest performance of the table when that
  exceeds 5) plus the medical score over 100 plus 0.6 times the training score over 100
  plus 0.4 times the missions over the largest missions value of the table, the divisor
  being at least 1. Performance, training and missions are the numeric casts of the
  cells (0 for a missing value, for text that is no number and for an absent column).
  Every row of a team that \<^verbatim>\<open>select_best_team\<close> returns is a row of this scored frame.
\<close>

theorem overall_formula:
  assumes cols: "set [''Medical_Category'', ''Leadership_Potential'', ''Readiness_Level''] \<subseteq> set (columns df)"
    and k: "k < length (rws df)"
  shows "\<exists>d. score_table parse df = Inr d
     \<and> length (rws d) = length (rws df)
     \<and> (\<forall>headcount roles restrict team.
           (truthy roles \<longrightarrow> ''Primary_Skill'' \<in> set (columns df))
           \<longrightarrow> select_best_team parse df headcount roles restrict = Inr team
           \<longrightarrow> set (rws team) \<subseteq> set (rws d))
     \<and> snd (rws d ! k) ''Overall'' =
         Num (let perf = (\<lambda>r. cast_value parse (''Performance_Rating'' \<in> set (columns df)) (snd r ''Performance_Rating''));
                  training = (\<lambda>r. cast_value parse (''Training_Score'' \<in> set (columns df)) (snd r ''Training_Score''));
                  missions = (\<lambda>r. cast_value parse (''Missions_Completed'' \<in> set (columns df)) (snd r ''Missions_Completed''));
                  max_perf = Max (set (map perf (rws df)));
                  max_missions = Max (set (map missions (rws df)));
                  r = rws df ! k
              in 2.5 * documented_readiness (snd r ''Readiness_Level'')
               + 1.5 * documented_leadership (snd r ''Leadership_Potential'')
               + 1.2 * (perf r / (if max_perf > 5 then max_perf else 5))
               + 1.0 * (documented_medical (snd r ''Medical_Category'') / 100)
               + 0.6 * (training r / 100)
               + 0.4 * (missions r / max max_missions 1))"
proof -
  let ?cs = "columns df"
  define P where "P = map (prepare_row parse ?cs) (rws df)"
  define perf where "perf = (\<lambda>r::row. cast_value parse (''Performance_Rating'' \<in> set ?cs) (snd r ''Performance_Rating''))"
  define missions where "missions = (\<lambda>r::row. cast_value parse (''Missions_Completed'' \<in> set ?cs) (snd r ''Missions_Completed''))"
  define dm where "dm = py_max (series_max (map (\<lambda>r. snd r ''Missions_Completed'') P)) 1"
  define dp where "dp = perf_denominator (series_max (map (\<lambda>r. snd r ''Performance_Rating'') P))"
  define d where "d = \<lparr>columns = ?cs @ filter (\<lambda>c. c \<notin> set ?cs) scored_names,
          rws = map (\<lambda>r. (fst r, (snd r)(''Overall'' := overall dm dp (snd r)))) P\<rparr>"
  have run: "score_table parse df = Inr d"
    unfolding d_def dm_def dp_def P_def using cols by (intro score_table_closed) simp_all
  have ne: "rws df \<noteq> []" using k by auto
  have cm: "map (\<lambda>r. snd r ''Missions_Completed'') P = map (\<lambda>r. Num (missions r)) (rws df)"
    by (simp add: P_def o_def prepare_row_cells missions_def)
  have cp: "map (\<lambda>r. snd r ''Performance_Rating'') P = map (\<lambda>r. Num (perf r)) (rws df)"
    by (simp add: P_def o_def prepare_row_cells perf_def)
  have dm: "dm = Some (max (Max (set (map missions (rws df)))) 1)"
    unfolding dm_def cm series_max_Num using ne by (simp add: py_max_Some)
  have dp: "dp = Some (if Max (set (map perf (rws df))) > 5 then Max (set (map perf (rws df))) else 5)"
    unfolding dp_def cp series_max_Num using ne by (simp add: perf_denominator_Some)
  have len: "length (rws d) = length (rws df)"
    by (simp add: d_def P_def)
  have row: "snd (rws d ! k) ''Overall'' = overall dm dp (snd (prepare_row parse ?cs (rws df ! k)))"
    using k by (simp add: d_def P_def)
  have val: "snd (rws d ! k) ''Overall'' =
      Num (2.5 * documented_readiness (snd (rws df ! k) ''Readiness_Level'')
         + 1.5 * documented_leadership (snd (rws df ! k) ''Leadership_Potential'')
         + 1.2 * (perf (rws df ! k) / (if Max (set (map perf (rws df))) > 5 then Max (set (map perf (rws df))) else 5))
         + 1.0 * (documented_medical (snd (rws df ! k) ''Medical_Category'') / 100)
         + 0.6 * (cast_value parse (''Training_Score'' \<in> set ?cs) (snd (rws df ! k) ''Training_Score'') / 100)
         + 0.4 * (missions (rws df ! k) / max (Max (set (map missions (rws df)))) 1))"
    unfolding row dm dp
    by (rule overall_numbers) (simp_all add: prepare_row_cells perf_def missions_def)
  have ovd: "''Overall'' \<in> set (columns d)"
    by (auto simp: d_def scored_names_def)
  have team: "\<forall>headcount roles restrict team.
           (truthy roles \<longrightarrow> ''Primary_Skill'' \<in> set (columns df))
           \<longrightarrow> select_best_team parse df headcount roles restrict = Inr team
           \<longrightarrow> set (rws team) \<subseteq> set (rws d)"
  proof (intro allI impI)
    fix headcount roles restrict team
    assume p: "truthy roles \<longrightarrow> ''Primary_Skill'' \<in> set (columns df)"
      and s: "select_best_team parse df headcount roles restrict = Inr team"
    have p': "truthy roles \<longrightarrow> ''Primary_Skill'' \<in> set (columns d)"
      using p by (auto simp: d_def)
    from s have "choose_team d headcount roles restrict = Inr team"
      by (simp add: select_best_team_def run)
    with ovd p' show "set (rws team) \<subseteq> set (rws d)"
      by (rule chosen_rows_subset)
  qed
  show ?thesis
    using run len team val unfolding perf_def missions_def Let_def by blast
qed


theorem overall_formula_witness:
  "set [''Medical_Category'', ''Leadership_Potential'', ''Readiness_Level''] \<subseteq> set (columns roster)
   \<and> 0 < length (rws roster)
   \<and> (\<exists>d. score_table no_parse roster = Inr d \<and> snd (rws d ! 0) ''Overall'' = Num (137 / 25))"
proof -
  have h: "set [''Medical_Category'', ''Leadership_Potential'', ''Readiness_Level''] \<subseteq> set (columns roster)"
    by (simp add: roster_def base_columns_def)
  have k: "0 < length (rws roster)"
    by (simp add: roster_def)
  from overall_formula [OF h k, of no_parse] obtain d where
    d: "score_table no_parse roster = Inr d" and
    v: "snd (rws d ! 0) ''Overall'' =
         Num (let perf = (\<lambda>r. cast_value no_parse (''Performance_Rating'' \<in> set (columns roster)) (snd r ''Performance_Rating''));
                  training = (\<lambda>r. cast_value no_parse (''Training_Score'' \<in> set (columns roster)) (snd r ''Training_Score''));
                  missions = (\<lambda>r. cast_value no_parse (''Missions_Completed'' \<in> set (columns roster)) (snd r ''Missions_Completed''));
                  max_perf = Max (set (map perf (rws roster)));
                  max_missions = Max (set (map missions (rws roster)));
                  r = rws roster ! 0
              in 2.5 * documented_readiness (snd r ''Readiness_Level'')
               + 1.5 * documented_leadership (snd r ''Leadership_Potential'')
               + 1.2 * (perf r / (if max_perf > 5 then max_perf else 5))
               + 1.0 * (documented_medical (snd r ''Medical_Category'') / 100)
               + 0.6 * (training r / 100)
               + 0.4 * (missions r / max max_missions 1))"
    by blast
  have "snd (rws d ! 0) ''Overall'' = Num (137 / 25)"
    unfolding v
    by (simp add: roster_def base_columns_def mk_row_def cast_value_def documented_readiness_def
          documented_leadership_def documented_medical_def)
  with h k d show ?thesis by blast
qed

subsection \<open>The default branch of the router\<close>

lemma is_text_fillna [simp]: "list_ex is_text (fillna x vs) = list_ex is_text vs"
  by (induction vs) (auto simp: fillna_def split: cell.splits)

lemma compare_series_numeric:
  "\<not> list_ex is_text vs \<Longrightarrow> \<exists>bs. compare_series p vs = Inr bs \<and> length bs = length vs"
  by (simp add: compare_series_def)

lemma enriched_column:
  "c \<notin> set derived_names \<Longrightarrow>
   map (\<lambda>r. snd r c) (map (enrich_row h) rs) = map (\<lambda>r. snd r c) rs"
  by (simp add: o_def enrich_row_other)

lemma getcol_enriched:
  assumes "c \<in> set cs" "c \<notin> set derived_names"
  shows "getcol \<lparr>columns = cs @ extra, rws = map (enrich_row h) rs\<rparr> c = Inr (map (\<lambda>r. snd r c) rs)"
  using assms by (simp add: getcol_def enrich_row_other)

lemma who_is_going_to_leave_total:
  assumes "attrition_ready df"
  shows "\<exists>out. who_is_going_to_leave df n = Inr out"
proof -
  let ?cs = "columns df"
  from assms have cols: "''Medical_Category'' \<in> set ?cs" "''Leadership_Potential'' \<in> set ?cs"
    "''Readiness_Level'' \<in> set ?cs" "''Personnel_ID'' \<in> set ?cs" "''Name'' \<in> set ?cs"
    "''Rank'' \<in> set ?cs" "''Years_of_Service'' \<in> set ?cs" "''Performance_Rating'' \<in> set ?cs"
    by (simp_all add: attrition_ready_def)
  define d where "d = \<lparr>columns = ?cs @ filter (\<lambda>c. c \<notin> set ?cs) derived_names,
                       rws = map (enrich_row (''Attrition_Risk'' \<in> set ?cs)) (rws df)\<rparr>"
  have e: "add_derived_columns df = Inr d"
    unfolding d_def using cols(1-3) by (rule add_derived_columns_closed)
  have sub: "set ?cs \<subseteq> set (columns d)" by (simp add: d_def)
  have ar: "''Attrition_Risk'' \<in> set (columns d) \<longleftrightarrow> ''Attrition_Risk'' \<in> set ?cs"
    by (auto simp: d_def derived_names_def)
  have asc: "''Attrition_Score'' \<in> set (columns d)"
    by (auto simp: d_def derived_names_def)
  show ?thesis
  proof (cases "''Attrition_Risk'' \<in> set ?cs")
    case True
    have k: "set (map fst [(''Attrition_Score'', False), (''Years_of_Service'', True)]) \<subseteq> set (columns d)"
      using asc cols(7) sub by auto
    define out where "out = d\<lparr>rws := sort_by (\<lambda>x y. keys_le [(''Attrition_Score'', False), (''Years_of_Service'', True)] (snd x) (snd y)) (rws d)\<rparr>"
    have s: "sort_values d [(''Attrition_Score'', False), (''Years_of_Service'', True)] = Inr out"
      unfolding out_def using k by (rule sort_values_present)
    have "set [''Personnel_ID'', ''Name'', ''Rank'', ''Years_of_Service'', ''Attrition_Risk'', ''Performance_Rating'']
            \<subseteq> set (columns out)"
      using cols True sub by (auto simp: out_def)
    then have c: "select_cols out [''Personnel_ID'', ''Name'', ''Rank'', ''Years_of_Service'',
                      ''Attrition_Risk'', ''Performance_Rating'']
          = Inr (out\<lparr>columns := [''Personnel_ID'', ''Name'', ''Rank'', ''Years_of_Service'',
                      ''Attrition_Risk'', ''Performance_Rating'']\<rparr>)"
      by (rule select_cols_present)
    show ?thesis
      unfolding who_is_going_to_leave_def e err_bind_Inr using True
      by (simp add: ar s c)
  next
    case False
    with assms have ts: "''Training_Score'' \<in> set ?cs"
      and num: "numeric_column df ''Years_of_Service''" "numeric_column df ''Performance_Rating''"
        "numeric_column df ''Training_Score''"
      by (simp_all add: attrition_ready_def)
    have g1: "getcol d ''Years_of_Service'' = Inr (map (\<lambda>r. snd r ''Years_of_Service'') (rws df))"
      unfolding d_def using cols(7) by (rule getcol_enriched) (simp add: derived_names_def)
    have g2: "getcol d ''Performance_Rating'' = Inr (map (\<lambda>r. snd r ''Performance_Rating'') (rws df))"
      unfolding d_def using cols(8) by (rule getcol_enriched) (simp add: derived_names_def)
    have g3: "getcol d ''Training_Score'' = Inr (map (\<lambda>r. snd r ''Training_Score'') (rws df))"
      unfolding d_def using ts by (rule getcol_enriched) (simp add: derived_names_def)
    from num(1) obtain b1 where b1: "compare_series (\<lambda>x. x > 20) (fillna 0 (map (\<lambda>r. snd r ''Years_of_Service'') (rws df))) = Inr b1"
      using compare_series_numeric [of "fillna 0 (map (\<lambda>r. snd r ''Years_of_Service'') (rws df))"]
      by (auto simp: numeric_column_def)
    from num(2) obtain b2 where b2: "compare_series (\<lambda>x. x \<le> 2) (fillna 3 (map (\<lambda>r. snd r ''Performance_Rating'') (rws df))) = Inr b2"
      using compare_series_numeric [of "fillna 3 (map (\<lambda>r. snd r ''Performance_Rating'') (rws df))"]
      by (auto simp: numeric_column_def)
    from num(3) obtain b3 where b3: "compare_series (\<lambda>x. x < 50) (fillna 60 (map (\<lambda>r. snd r ''Training_Score'') (rws df))) = Inr b3"
      using compare_series_numeric [of "fillna 60 (map (\<lambda>r. snd r ''Training_Score'') (rws df))"]
      by (auto simp: numeric_column_def)
    define d' where "d' = setcol d ''Heuristic_Attrition''
                  (map (\<lambda>(a, b, c). heuristic_label a b c) (zip b1 (zip b2 b3)))"
    have sub': "set (columns d) \<subseteq> set (columns d')" "''Heuristic_Attrition'' \<in> set (columns d')"
      by (auto simp: d'_def columns_setcol)
    have k: "set (map fst [(''Heuristic_Attrition'', False), (''Years_of_Service'', True)]) \<subseteq> set (columns d')"
      using sub' cols(7) sub by auto
    define out where "out = d'\<lparr>rws := sort_by (\<lambda>x y. keys_le [(''Heuristic_Attrition'', False), (''Years_of_Service'', True)] (snd x) (snd y)) (rws d')\<rparr>"
    have s: "sort_values d' [(''Heuristic_Attrition'', False), (''Years_of_Service'', True)] = Inr out"
      unfolding out_def using k by (rule sort_values_present)
    have "set [''Personnel_ID'', ''Name'', ''Rank'', ''Years_of_Service'', ''Heuristic_Attrition'', ''Performance_Rating'']
            \<subseteq> set (columns out)"
      using cols sub sub' by (auto simp: out_def)
    then have c: "select_cols out [''Personnel_ID'', ''Name'', ''Rank'', ''Years_of_Service'',
                      ''Heuristic_Attrition'', ''Performance_Rating'']
          = Inr (out\<lparr>columns := [''Personnel_ID'', ''Name'', ''Rank'', ''Years_of_Service'',
                      ''Heuristic_Attrition'', ''Performance_Rating'']\<rparr>)"
      by (rule select_cols_present)
    show ?thesis
      unfolding who_is_going_to_leave_def e err_bind_Inr using False
      by (simp add: ar g1 b1 g2 b2 g3 b3 Let_def d'_def [symmetric] s c)
  qed
qed

text \<open>
  The default branch where the attrition ranking returns. For every query whose
  lower-cased text matches none of the router's keyword sets, \<^verbatim>\<open>what_if_simulation\<close>
  is the attrition report wrapped with the action \<^verbatim>\<open>show_attrition\<close>, so it fails only
  where that report fails; the report returns when its columns are present and, for a
  table without an \<^verbatim>\<open>Attrition_Risk\<close> column, the three columns of the heuristic hold
  numbers or missing values.
\<close>

theorem unmatched_query_default:
  assumes "route (lower text) = Default"
  shows "what_if_simulation parse df text
           = err_bind (who_is_going_to_leave df 50) (\<lambda>out.
               Inr \<lparr>action = ''show_attrition'', recommendations = [],
                    data = to_records out, query = text\<rparr>)
     \<and> (attrition_ready df \<longrightarrow>
          (\<exists>out. who_is_going_to_leave df 50 = Inr out
             \<and> what_if_simulation parse df text
                 = Inr \<lparr>action = ''show_attrition'', recommendations = [],
                        data = to_records out, query = text\<rparr>))"
proof -
  have w: "what_if_simulation parse df text
           = err_bind (who_is_going_to_leave df 50) (\<lambda>out.
               Inr \<lparr>action = ''show_attrition'', recommendations = [],
                    data = to_records out, query = text\<rparr>)"
    using assms by (simp add: what_if_simulation_def Let_def)
  have "attrition_ready df \<longrightarrow>
          (\<exists>out. who_is_going_to_leave df 50 = Inr out
             \<and> what_if_simulation parse df text
                 = Inr \<lparr>action = ''show_attrition'', recommendations = [],
                        data = to_records out, query = text\<rparr>)"
  proof
    assume "attrition_ready df"
    then obtain out where "who_is_going_to_leave df 50 = Inr out"
      using who_is_going_to_leave_total by blast
    then show "\<exists>out. who_is_going_to_leave df 50 = Inr out
             \<and> what_if_simulation parse df text
                 = Inr \<lparr>action = ''show_attrition'', recommendations = [],
                        data = to_records out, query = text\<rparr>"
      unfolding w by simp
  qed
  with w show ?thesis by blast
qed


lemma lower_plain [simp]: "lower ''random unrelated text'' = ''random unrelated text''"
  by (simp add: lower_def lower_char_def)

theorem unmatched_query_default_witness:
  "route (lower ''random unrelated text'') = Default
   \<and> attrition_ready roster
   \<and> (\<exists>out. who_is_going_to_leave roster 50 = Inr out
         \<and> what_if_simulation no_parse roster ''random unrelated text''
             = Inr \<lparr>action = ''show_attrition'', recommendations = [],
                    data = to_records out, query = ''random unrelated text''\<rparr>)"
proof -
  have r: "route (lower ''random unrelated text'') = Default"
    by (simp add: route_def mentions_def)
  have a: "attrition_ready roster"
    by (simp add: attrition_ready_def numeric_column_def roster_def base_columns_def mk_row_def)
  from unmatched_query_default [OF r, of no_parse roster] a
  have "\<exists>out. who_is_going_to_leave roster 50 = Inr out
         \<and> what_if_simulation no_parse roster ''random unrelated text''
             = Inr \<lparr>action = ''show_attrition'', recommendations = [],
                    data = to_records out, query = ''random unrelated text''\<rparr>"
    by blast
  with r a show ?thesis by blast
qed

subsection \<open>The leadership branch of the router (C10)\<close>

lemma length_to_records [simp]: "length (to_records d) = length (rws d)"
  by (simp add: to_records_def)

lemma length_head_le: "0 \<le> n \<Longrightarrow> length (rws (head n d)) \<le> nat n"
  by (simp add: head_def head_rows_def)

lemma set_unique [simp]: "set (unique vs) = set vs"
proof (induction vs rule: unique.induct)
  case 1
  then show ?case by simp
next
  case (2 v vs)
  then show ?case by auto
qed

lemma first_skill_total:
  "\<forall>v \<in> set vs. is_text v \<Longrightarrow> \<exists>sk. first_skill t vs = Inr sk"
proof (induction vs)
  case Nil
  then show ?case by simp
next
  case (Cons v vs)
  then show ?case by (cases v) auto
qed

lemma skills_are_text:
  assumes "text_column df c"
  shows "\<forall>v \<in> set (unique (dropna (map (\<lambda>r. snd r c) (rws df)))). is_text v"
proof
  fix v assume "v \<in> set (unique (dropna (map (\<lambda>r. snd r c) (rws df))))"
  then have v: "v \<in> set (map (\<lambda>r. snd r c) (rws df))" "v \<noteq> NaN"
    by (simp_all add: dropna_def)
  with assms have "num_of v = None"
    by (auto simp: text_column_def list_all_iff)
  with v(2) show "is_text v" by (cases v) simp_all
qed

lemma leadership_list_total:
  assumes "set [''Medical_Category'', ''Leadership_Potential'', ''Readiness_Level'',
                ''Primary_Skill'', ''Performance_Rating''] \<subseteq> set (columns df)"
  shows "\<exists>tab. leadership_list df = Inr tab \<and> ''Primary_Skill'' \<in> set (columns tab)
           \<and> length (rws tab) = length (rws df)"
proof -
  let ?cs = "columns df"
  define d where "d = \<lparr>columns = ?cs @ filter (\<lambda>c. c \<notin> set ?cs) derived_names,
                       rws = map (enrich_row (''Attrition_Risk'' \<in> set ?cs)) (rws df)\<rparr>"
  have e: "add_derived_columns df = Inr d"
    unfolding d_def using assms by (intro add_derived_columns_closed) simp_all
  have sub: "set ?cs \<subseteq> set (columns d)" by (simp add: d_def)
  have ls: "''Leadership_Score'' \<in> set (columns d)"
    by (auto simp: d_def derived_names_def)
  have k: "set (map fst [(''Leadership_Score'', False), (''Performance_Rating'', False)]) \<subseteq> set (columns d)"
    using ls assms sub by auto
  define s where "s = d\<lparr>rws := sort_by (\<lambda>x y. keys_le [(''Leadership_Score'', False), (''Performance_Rating'', False)] (snd x) (snd y)) (rws d)\<rparr>"
  have sv: "sort_values d [(''Leadership_Score'', False), (''Performance_Rating'', False)] = Inr s"
    unfolding s_def using k by (rule sort_values_present)
  define cols where "cols = filter (\<lambda>c. c \<in> set (columns d))
                  [''Personnel_ID'', ''Name'', ''Rank'', ''Primary_Skill'',
                   ''Leadership_Potential'', ''Performance_Rating'', ''Missions_Completed'']"
  have "set cols \<subseteq> set (columns s)"
    by (auto simp: cols_def s_def)
  then have sc: "select_cols s cols = Inr (s\<lparr>columns := cols\<rparr>)"
    by (rule select_cols_present)
  have "''Primary_Skill'' \<in> set cols"
    using assms sub by (auto simp: cols_def)
  moreover have "leadership_list df = Inr (s\<lparr>columns := cols\<rparr>)"
    unfolding leadership_list_def e err_bind_Inr Let_def cols_def [symmetric] sv sc ..
  moreover have "length (rws (s\<lparr>columns := cols\<rparr>)) = length (rws df)"
    by (simp add: s_def d_def)
  ultimately show ?thesis by simp
qed

text \<open>
  Claim C10. For every query that the router sends to its leadership branch, the result
  of \<^verbatim>\<open>what_if_simulation\<close> has the action \<^verbatim>\<open>show_leadership\<close> and at most 50 data
  records, however many leadership candidates the table has. The call returns on every
  table that has the categorical columns, a performance rating and a primary-skill
  column whose cells are text or missing; on such a table \<^verbatim>\<open>leadership_list\<close> itself
  returns as many rows as the table has.
\<close>

theorem leadership_data_capped:
  assumes "route (lower text) = Leadership"
  shows "(\<forall>res. what_if_simulation parse df text = Inr res
            \<longrightarrow> action res = ''show_leadership'' \<and> length (data res) \<le> 50)
     \<and> (set [''Medical_Category'', ''Leadership_Potential'', ''Readiness_Level'',
              ''Primary_Skill'', ''Performance_Rating''] \<subseteq> set (columns df)
          \<and> text_column df ''Primary_Skill''
          \<longrightarrow> (\<exists>res. what_if_simulation parse df text = Inr res)
            \<and> (\<exists>tab. leadership_list df = Inr tab \<and> length (rws tab) = length (rws df)))"
proof -
  define tl where "tl = lower text"
  define finish where "finish = (\<lambda>tab. (Inr \<lparr>action = ''show_leadership'', recommendations = [],
               data = to_records (head 50 tab), query = text\<rparr> :: error + result))"
  define narrow where "narrow = (\<lambda>skill tab. if truthy_text skill
                    then err_bind (getcol tab ''Primary_Skill'') (\<lambda>tps.
                         Inr (mask_rows tab
                                (map (\<lambda>v. case v of Str s \<Rightarrow> lower s = lower (the skill) | _ \<Rightarrow> False)
                                   tps)))
                    else Inr tab)"
  have w: "what_if_simulation parse df text =
          err_bind (getcol df ''Primary_Skill'') (\<lambda>ps.
          err_bind (first_skill tl (unique (dropna ps))) (\<lambda>skill.
          err_bind (leadership_list df) (\<lambda>tab.
          err_bind (narrow skill tab) finish)))"
    using assms by (simp add: what_if_simulation_def Let_def tl_def finish_def narrow_def)
  have fin: "action res = ''show_leadership'' \<and> length (data res) \<le> 50" if "finish tab = Inr res" for tab res
  proof -
    from that have res: "res = \<lparr>action = ''show_leadership'', recommendations = [],
               data = to_records (head 50 tab), query = text\<rparr>"
      by (simp add: finish_def)
    have "length (rws (head 50 tab)) \<le> nat 50"
      by (rule length_head_le) simp
    then show ?thesis by (simp add: res)
  qed
  have part1: "\<forall>res. what_if_simulation parse df text = Inr res
            \<longrightarrow> action res = ''show_leadership'' \<and> length (data res) \<le> 50"
  proof (intro allI impI)
    fix res assume "what_if_simulation parse df text = Inr res"
    then obtain tab where "finish tab = Inr res"
      unfolding w by (auto simp: err_bind_def split: sum.splits)
    then show "action res = ''show_leadership'' \<and> length (data res) \<le> 50"
      by (rule fin)
  qed
  have part2: "set [''Medical_Category'', ''Leadership_Potential'', ''Readiness_Level'',
              ''Primary_Skill'', ''Performance_Rating''] \<subseteq> set (columns df)
          \<and> text_column df ''Primary_Skill''
          \<longrightarrow> (\<exists>res. what_if_simulation parse df text = Inr res)
            \<and> (\<exists>tab. leadership_list df = Inr tab \<and> length (rws tab) = length (rws df))"
  proof
    assume a: "set [''Medical_Category'', ''Leadership_Potential'', ''Readiness_Level'',
              ''Primary_Skill'', ''Performance_Rating''] \<subseteq> set (columns df)
          \<and> text_column df ''Primary_Skill''"
    then have g: "getcol df ''Primary_Skill'' = Inr (map (\<lambda>r. snd r ''Primary_Skill'') (rws df))"
      by (intro getcol_present) simp
    from a obtain skill where f: "first_skill tl (unique (dropna (map (\<lambda>r. snd r ''Primary_Skill'') (rws df)))) = Inr skill"
      using first_skill_total [OF skills_are_text, of df "''Primary_Skill''" tl] by blast
    from a obtain tab where l: "leadership_list df = Inr tab" and p: "''Primary_Skill'' \<in> set (columns tab)"
      and all: "length (rws tab) = length (rws df)"
      using leadership_list_total [of df] by blast
    obtain tab' where n: "narrow skill tab = Inr tab'"
      using p by (cases "truthy_text skill") (simp_all add: narrow_def getcol_present)
    have "\<exists>res. what_if_simulation parse df text = Inr res"
      unfolding w g err_bind_Inr f l n by (simp add: finish_def)
    with l all show "(\<exists>res. what_if_simulation parse df text = Inr res)
            \<and> (\<exists>tab. leadership_list df = Inr tab \<and> length (rws tab) = length (rws df))"
      by blast
  qed
  from part1 part2 show ?thesis by blast
qed


theorem leadership_data_capped_witness:
  "route (lower ''Best Leaders'') = Leadership
   \<and> set [''Medical_Category'', ''Leadership_Potential'', ''Readiness_Level'',
           ''Primary_Skill'', ''Performance_Rating''] \<subseteq> set (columns roster)
   \<and> text_column roster ''Primary_Skill''
   \<and> (\<exists>res. what_if_simulation no_parse roster ''Best Leaders'' = Inr res
         \<and> action res = ''show_leadership'' \<and> length (data res) \<le> 50)"
proof -
  have r: "route (lower ''Best Leaders'') = Leadership"
    by (simp add: lower_def lower_char_def route_def mentions_def)
  have c: "set [''Medical_Category'', ''Leadership_Potential'', ''Readiness_Level'',
           ''Primary_Skill'', ''Performance_Rating''] \<subseteq> set (columns roster)"
    by (simp add: roster_def base_columns_def)
  have t: "text_column roster ''Primary_Skill''"
    by (simp add: text_column_def roster_def mk_row_def)
  from leadership_data_capped [OF r, of no_parse roster] c t
  have "\<exists>res. what_if_simulation no_parse roster ''Best Leaders'' = Inr res
         \<and> action res = ''show_leadership'' \<and> length (data res) \<le> 50"
    by blast
  with r c t show ?thesis by blast
qed

subsection \<open>The default branch on categorical ratings (C8)\<close>

lemma text_ratings_enriched:
  "add_derived_columns text_ratings =
     Inr \<lparr>columns = base_columns @ derived_names, rws = map (enrich_row False) (rws text_ratings)\<rparr>"
proof -
  have "add_derived_columns text_ratings =
     Inr \<lparr>columns = columns text_ratings @ filter (\<lambda>c. c \<notin> set (columns text_ratings)) derived_names,
          rws = map (enrich_row (''Attrition_Risk'' \<in> set (columns text_ratings))) (rws text_ratings)\<rparr>"
    by (rule add_derived_columns_closed) (simp_all add: text_ratings_def base_columns_def)
  then show ?thesis
    by (simp add: text_ratings_def base_columns_def derived_names_def)
qed

lemma text_ratings_report: "who_is_going_to_leave text_ratings 50 = Inl TypeError"
  unfolding who_is_going_to_leave_def text_ratings_enriched
  by (simp add: base_columns_def derived_names_def getcol_def text_ratings_def mk_row_def
        enrich_row_def fillna_def compare_series_def)

text \<open>
  Claim C8. A query that matches no keyword set should never raise. The table
  \<open>text_ratings\<close> is well formed for the data model: it has every column but the optional
  \<^verbatim>\<open>Attrition_Risk\<close>, and its performance ratings are categorical. The query
  \<^verbatim>\<open>random unrelated text\<close> reaches the default branch, whose attrition report takes the
  heuristic path and compares the ratings with the number 2: \<^verbatim>\<open>what_if_simulation\<close>
  raises a TypeError instead of returning \<^verbatim>\<open>show_attrition\<close>.
\<close>

theorem unmatched_query_on_text_ratings:
  "route (lower ''random unrelated text'') = Default
   \<and> ''Attrition_Risk'' \<notin> set (columns text_ratings)
   \<and> what_if_simulation no_parse text_ratings ''random unrelated text'' = Inl TypeError"
proof -
  have r: "route (lower ''random unrelated text'') = Default"
    by (simp add: route_def mentions_def)
  have a: "''Attrition_Risk'' \<notin> set (columns text_ratings)"
    by (simp add: text_ratings_def base_columns_def)
  have "what_if_simulation no_parse text_ratings ''random unrelated text'' = Inl TypeError"
    using r by (simp add: what_if_simulation_def Let_def text_ratings_report)
  with r a show ?thesis by blast
qed

subsection \<open>The retirement scenario (C7)\<close>











subsection \<open>Effects on the store (C9)\<close>

lemma st_bind_Inr [simp]: "st_bind (Inr x, s) k = k x s"
  by (simp add: st_bind_def)

lemma st_bind_Inl [simp]: "st_bind (Inl e, s) k = (Inl e, s)"
  by (simp add: st_bind_def)

lemma setitem_fresh [simp]: "setitem_st (length s) c vs (s @ [f]) = s @ [setcol f c vs]"
  by (simp add: setitem_st_def modify_st_def)

lemma modify_fresh [simp]: "modify_st (length s) g (s @ [f]) = s @ [g f]"
  by (simp add: modify_st_def)

lemma modify_fresh2 [simp]: "modify_st (Suc (length s)) g (s @ [e, f]) = s @ [e, g f]"
  by (simp add: modify_st_def list_update_append nth_append)

lemma setitem_fresh2 [simp]: "setitem_st (Suc (length s)) c vs (s @ [e, f]) = s @ [e, setcol f c vs]"
  by (simp add: setitem_st_def)

lemma nth_fresh2 [simp]: "(s @ [e, f]) ! Suc (length s) = f"
  by (simp add: nth_append)

lemma add_derived_columns_st_effect:
  "\<exists>p. add_derived_columns_st r s
          = (case add_derived_columns (s ! r) of Inl e \<Rightarrow> Inl e | Inr f \<Rightarrow> Inr (length s), s @ [p])
       \<and> (\<forall>f. add_derived_columns (s ! r) = Inr f \<longrightarrow> p = f)"
proof -
  define df where "df = s ! r"
  show ?thesis
  proof (cases "getcol df ''Medical_Category''")
    case (Inl e)
    then show ?thesis
      by (simp add: add_derived_columns_st_def add_derived_columns_def copy_st_def df_def [symmetric])
  next
    case mc: (Inr mc)
    define df1 where "df1 = setcol df ''Medical_Score'' (fillna 60 (series_map MEDICAL_SCORE mc))"
    show ?thesis
    proof (cases "getcol df1 ''Leadership_Potential''")
      case (Inl e)
      then show ?thesis
        by (simp add: add_derived_columns_st_def add_derived_columns_def copy_st_def
              df_def [symmetric] mc df1_def [symmetric])
    next
      case lp: (Inr lp)
      define df2 where "df2 = setcol df1 ''Leadership_Score'' (fillna 1 (series_map LEADERSHIP_MAP lp))"
      show ?thesis
      proof (cases "getcol df2 ''Readiness_Level''")
        case (Inl e)
        then show ?thesis
          by (simp add: add_derived_columns_st_def add_derived_columns_def copy_st_def
                df_def [symmetric] mc df1_def [symmetric] lp df2_def [symmetric])
      next
        case rl: (Inr rl)
        define df3 where "df3 = setcol df2 ''Readiness_Score'' (fillna 1 (series_map READINESS_SCORE rl))"
        show ?thesis
        proof (cases "''Attrition_Risk'' \<in> set (columns df3)")
          case True
          then obtain ar where "getcol df3 ''Attrition_Risk'' = Inr ar"
            by (simp add: getcol_def)
          with True show ?thesis
            by (simp add: add_derived_columns_st_def add_derived_columns_def copy_st_def
                  df_def [symmetric] mc df1_def [symmetric] lp df2_def [symmetric] rl
                  df3_def [symmetric])
        next
          case False
          then show ?thesis
            by (simp add: add_derived_columns_st_def add_derived_columns_def copy_st_def
                  df_def [symmetric] mc df1_def [symmetric] lp df2_def [symmetric] rl
                  df3_def [symmetric])
        qed
      qed
    qed
  qed
qed


lemma add_derived_columns_st_cases:
  obtains (fails) e p where "add_derived_columns (s ! r) = Inl e"
      "add_derived_columns_st r s = (Inl e, s @ [p])"
    | (returns) f where "add_derived_columns (s ! r) = Inr f"
      "add_derived_columns_st r s = (Inr (length s), s @ [f])"
proof -
  from add_derived_columns_st_effect [of r s] obtain p where
    1: "add_derived_columns_st r s
          = (case add_derived_columns (s ! r) of Inl e \<Rightarrow> Inl e | Inr f \<Rightarrow> Inr (length s), s @ [p])"
    and 2: "\<forall>f. add_derived_columns (s ! r) = Inr f \<longrightarrow> p = f"
    by blast
  show thesis
  proof (cases "add_derived_columns (s ! r)")
    case (Inl e)
    with 1 show thesis by (intro fails [of e p]) simp_all
  next
    case (Inr f)
    with 1 2 show thesis by (intro returns [of f]) simp_all
  qed
qed

lemma who_is_going_to_leave_st_effect:
  "\<exists>ts. who_is_going_to_leave_st r n s = (who_is_going_to_leave (s ! r) n, s @ ts)"
proof (cases rule: add_derived_columns_st_cases [of s r])
  case (fails e p)
  then show ?thesis
    by (simp add: who_is_going_to_leave_st_def who_is_going_to_leave_def)
next
  case (returns f)
  show ?thesis
  proof (cases "''Attrition_Risk'' \<in> set (columns f)")
    case True
    with returns show ?thesis
      by (simp add: who_is_going_to_leave_st_def who_is_going_to_leave_def)
  next
    case False
    with returns show ?thesis
      by (auto simp: who_is_going_to_leave_st_def who_is_going_to_leave_def Let_def
            st_bind_def err_bind_def split: sum.splits)
  qed
qed

lemma select_best_team_st_effect:
  "\<exists>ts. select_best_team_st parse r headcount roles restrict s
          = (select_best_team parse (s ! r) headcount roles restrict, s @ ts)"
proof (cases rule: add_derived_columns_st_cases [of s r])
  case (fails e p)
  then show ?thesis
    by (simp add: select_best_team_st_def select_best_team_def score_table_def)
next
  case (returns f)
  then show ?thesis
    by (auto simp: select_best_team_st_def select_best_team_def score_table_def copy_st_def
          Let_def st_bind_def err_bind_def split: sum.splits)
qed

lemma reads_enriched_effect: "\<exists>ts. reads_enriched g r s = (g (s ! r), s @ ts)"
  by (cases rule: add_derived_columns_st_cases [of s r]) (simp_all add: reads_enriched_def)

lemma what_if_simulation_st_effect:
  "\<exists>ts. what_if_simulation_st parse r text s = (what_if_simulation parse (s ! r) text, s @ ts)"
proof (cases "route (lower text)")
  case Leadership
  show ?thesis
  proof (cases "err_bind (getcol (s ! r) ''Primary_Skill'') (\<lambda>ps.
                     first_skill (lower text) (unique (dropna ps)))")
    case (Inl e)
    then have "what_if_simulation parse (s ! r) text = Inl e"
      by (auto simp: what_if_simulation_def Leadership Let_def err_bind_def split: sum.splits)
    with Inl Leadership show ?thesis
      by (simp add: what_if_simulation_st_def Let_def)
  next
    case (Inr skill)
    with Leadership show ?thesis
      using reads_enriched_effect [of "\<lambda>df. what_if_simulation parse df text" r s]
      by (simp add: what_if_simulation_st_def Let_def)
  qed
next
  case Team
  define n where "n = (case search_digits (lower text) of Some k \<Rightarrow> k | None \<Rightarrow> 10)"
  show ?thesis
  proof (cases "err_bind (getcol (s ! r) ''Primary_Skill'') (\<lambda>ps.
                      mentioned_skills (lower text) (unique (dropna ps)))")
    case (Inl e)
    then have "what_if_simulation parse (s ! r) text = Inl e"
      by (auto simp: what_if_simulation_def Team Let_def err_bind_def split: sum.splits)
    with Inl Team show ?thesis
      by (simp add: what_if_simulation_st_def Let_def)
  next
    case (Inr roles)
    define rs where "rs = (if roles = [] then None else Some roles)"
    from select_best_team_st_effect [of parse r "int n" rs False s] obtain ts where
      t: "select_best_team_st parse r (int n) rs False s
            = (select_best_team parse (s ! r) (int n) rs False, s @ ts)"
      by blast
    from Inr have p: "what_if_simulation parse (s ! r) text =
        err_bind (select_best_team parse (s ! r) (int n) rs False) (\<lambda>team.
           Inr \<lparr>action = ''select_team'', recommendations = [],
                data = to_records team, query = text\<rparr>)"
      by (auto simp: what_if_simulation_def Team Let_def err_bind_def n_def rs_def split: sum.splits)
    have "what_if_simulation_st parse r text s =
        st_bind (select_best_team_st parse r (int n) rs False s) (\<lambda>team s.
           (Inr \<lparr>action = ''select_team'', recommendations = [],
                 data = to_records team, query = text\<rparr>, s))"
      using Inr by (simp add: what_if_simulation_st_def Team Let_def n_def rs_def)
    then show ?thesis
      unfolding t p by (cases "select_best_team parse (s ! r) (int n) rs False") simp_all
  qed
next
  case Default
  from who_is_going_to_leave_st_effect [of r 50 s] obtain ts where
    t: "who_is_going_to_leave_st r 50 s = (who_is_going_to_leave (s ! r) 50, s @ ts)"
    by blast
  show ?thesis
    by (cases "who_is_going_to_leave (s ! r) 50")
       (simp_all add: what_if_simulation_st_def what_if_simulation_def Default Let_def t)
qed (use reads_enriched_effect [of "\<lambda>df. what_if_simulation parse df text" r s]
      in \<open>simp_all add: what_if_simulation_st_def Let_def\<close>)


lemma untouched_append: "untouched s (s @ ts)"
  by (simp add: untouched_def)

lemma untouched_nth: "untouched s s' \<Longrightarrow> r < length s \<Longrightarrow> s' ! r = s ! r"
  by (metis nth_take untouched_def)

text \<open>
  Claim C9. Let the table live in a store under a valid reference \<open>r\<close>. After
  \<^verbatim>\<open>add_derived_columns\<close>, each report generator, \<^verbatim>\<open>select_best_team\<close> or
  \<^verbatim>\<open>what_if_simulation\<close>, every frame that was in the store is still there unchanged, the
  source table in particular: the derived columns (and every later column write) go to
  frames allocated by \<^verbatim>\<open>copy\<close> during the call. The enriched frame that
  \<^verbatim>\<open>add_derived_columns\<close> returns is a new reference, and the store functions return what
  the value model of the same functions returns.
\<close>

theorem source_table_untouched:
  assumes "r < length s"
  shows "untouched s (snd (add_derived_columns_st r s))
     \<and> untouched s (snd (who_is_going_to_leave_st r top_n s))
     \<and> untouched s (snd (medical_scores_st r s))
     \<and> untouched s (snd (who_needs_training_st r thresh s))
     \<and> untouched s (snd (leadership_list_st r s))
     \<and> untouched s (snd (skill_grouping_st r s))
     \<and> untouched s (snd (select_best_team_st parse r headcount roles restrict s))
     \<and> untouched s (snd (what_if_simulation_st parse r text s))
     \<and> snd (add_derived_columns_st r s) ! r = s ! r
     \<and> snd (who_is_going_to_leave_st r top_n s) ! r = s ! r
     \<and> snd (select_best_team_st parse r headcount roles restrict s) ! r = s ! r
     \<and> snd (what_if_simulation_st parse r text s) ! r = s ! r
     \<and> (\<forall>d. fst (add_derived_columns_st r s) = Inr d
           \<longrightarrow> d \<noteq> r \<and> add_derived_columns (s ! r) = Inr (snd (add_derived_columns_st r s) ! d))
     \<and> fst (who_is_going_to_leave_st r top_n s) = who_is_going_to_leave (s ! r) top_n
     \<and> fst (select_best_team_st parse r headcount roles restrict s)
         = select_best_team parse (s ! r) headcount roles restrict
     \<and> fst (what_if_simulation_st parse r text s) = what_if_simulation parse (s ! r) text"
proof -
  have a: "untouched s (snd (add_derived_columns_st r s))"
    by (cases rule: add_derived_columns_st_cases [of s r]) (simp_all add: untouched_append)
  have a': "\<forall>d. fst (add_derived_columns_st r s) = Inr d
           \<longrightarrow> d \<noteq> r \<and> add_derived_columns (s ! r) = Inr (snd (add_derived_columns_st r s) ! d)"
    using assms by (cases rule: add_derived_columns_st_cases [of s r]) auto
  obtain t1 where w: "who_is_going_to_leave_st r top_n s = (who_is_going_to_leave (s ! r) top_n, s @ t1)"
    using who_is_going_to_leave_st_effect by blast
  obtain t2 where m: "medical_scores_st r s = (medical_scores (s ! r), s @ t2)"
    unfolding medical_scores_st_def using reads_enriched_effect by blast
  obtain t3 where n: "who_needs_training_st r thresh s = (who_needs_training (s ! r) thresh, s @ t3)"
    unfolding who_needs_training_st_def using reads_enriched_effect by blast
  obtain t4 where l: "leadership_list_st r s = (leadership_list (s ! r), s @ t4)"
    unfolding leadership_list_st_def using reads_enriched_effect by blast
  have g: "untouched s (snd (skill_grouping_st r s))"
    by (simp add: skill_grouping_st_def untouched_def)
  obtain t5 where t: "select_best_team_st parse r headcount roles restrict s
          = (select_best_team parse (s ! r) headcount roles restrict, s @ t5)"
    using select_best_team_st_effect by blast
  obtain t6 where q: "what_if_simulation_st parse r text s
          = (what_if_simulation parse (s ! r) text, s @ t6)"
    using what_if_simulation_st_effect by blast
  have ar: "snd (add_derived_columns_st r s) ! r = s ! r"
    using a assms by (rule untouched_nth)
  show ?thesis
    using a a' g ar assms
    by (simp add: w m n l t q untouched_append nth_append)
qed

theorem source_table_untouched_witness:
  "0 < length shared
   \<and> untouched shared (snd (add_derived_columns_st 0 shared))
   \<and> untouched shared (snd (what_if_simulation_st no_parse 0 ''random unrelated text'' shared))
   \<and> snd (add_derived_columns_st 0 shared) ! 0 = roster
   \<and> snd (select_best_team_st no_parse 0 2 (Some [''Pilot'']) True shared) ! 0 = roster
   \<and> snd (what_if_simulation_st no_parse 0 ''random unrelated text'' shared) ! 0 = roster"
proof -
  have h: "0 < length shared" by (simp add: shared_def)
  have r: "shared ! 0 = roster" by (simp add: shared_def)
  from source_table_untouched [OF h, of 50 50 no_parse 2 "Some [''Pilot'']" True "''random unrelated text''"]
  show ?thesis using h by (simp add: r)
qed

end
